theory Spec2Isabelle
  imports Main
begin

unbundle bit_operations_syntax

section \<open>JavaScript strings and values\<close>

text \<open>
  A JavaScript string is a sequence of UTF-16 code units and \<open>s.length\<close> counts them.
  The model writes a string as a \<open>string\<close> with one \<open>char\<close> per code unit, so it covers
  the strings whose code units lie below 256 (U+0000 to U+00FF). On that range the
  white space of \<open>\s\<close> and of \<open>String.prototype.trim\<close> (WhiteSpace and LineTerminator) is
  TAB, LF, VT, FF, CR, SPACE and NO-BREAK SPACE.
\<close>

definition js_space :: "char \<Rightarrow> bool" where
  "js_space c = (c \<in> {CHR 0x09, CHR 0x0A, CHR 0x0B, CHR 0x0C, CHR 0x0D, CHR 0x20, CHR 0xA0})"

text \<open>\<open>\d\<close> without the unicode flag is \<open>[0-9]\<close>.\<close>

definition js_digit :: "char \<Rightarrow> bool" where
  "js_digit c = (48 \<le> (of_char c :: nat) \<and> (of_char c :: nat) \<le> 57)"

definition trim :: "string \<Rightarrow> string" where
  "trim s = rev (dropWhile js_space (rev (dropWhile js_space s)))"

text \<open>
  The validators return what \<open>a && b\<close> returns: the left operand when it is falsy, the
  right one otherwise. The operands that occur are strings and booleans.
\<close>

datatype jsval = JBool bool | JStr string

fun truthy :: "jsval \<Rightarrow> bool" where
  "truthy (JBool b) = b"
| "truthy (JStr s) = (s \<noteq> [])"

definition js_and :: "jsval \<Rightarrow> jsval \<Rightarrow> jsval" where
  "js_and a b = (if truthy a then b else a)"

section \<open>Regular expressions\<close>

text \<open>
  The regular expressions of the source are built from character classes, concatenation
  and the quantifiers \<open>?\<close>, \<open>+\<close> and \<open>{0,n}\<close>, and each is anchored by \<open>^\<close> and \<open>$\<close>
  (no \<open>m\<close> flag), so \<open>test\<close> asks whether the whole string is in the language. The
  matcher decides that with derivatives.
\<close>

datatype regex =
    RNone
  | REps
  | RClass "char \<Rightarrow> bool"
  | RAlt regex regex
  | RSeq regex regex
  | RStar regex

definition rplus :: "regex \<Rightarrow> regex" where
  "rplus r = RSeq r (RStar r)"

definition ropt :: "regex \<Rightarrow> regex" where
  "ropt r = RAlt r REps"

fun rupto :: "nat \<Rightarrow> regex \<Rightarrow> regex" where
  "rupto 0 r = REps"
| "rupto (Suc n) r = RAlt (RSeq r (rupto n r)) REps"

fun nullable :: "regex \<Rightarrow> bool" where
  "nullable RNone = False"
| "nullable REps = True"
| "nullable (RClass P) = False"
| "nullable (RAlt a b) = (nullable a \<or> nullable b)"
| "nullable (RSeq a b) = (nullable a \<and> nullable b)"
| "nullable (RStar a) = True"

fun deriv :: "char \<Rightarrow> regex \<Rightarrow> regex" where
  "deriv c RNone = RNone"
| "deriv c REps = RNone"
| "deriv c (RClass P) = (if P c then REps else RNone)"
| "deriv c (RAlt a b) = RAlt (deriv c a) (deriv c b)"
| "deriv c (RSeq a b) =
     (if nullable a then RAlt (RSeq (deriv c a) b) (deriv c b) else RSeq (deriv c a) b)"
| "deriv c (RStar a) = RSeq (deriv c a) (RStar a)"

fun matches :: "regex \<Rightarrow> string \<Rightarrow> bool" where
  "matches r [] = nullable r"
| "matches r (c # cs) = matches (deriv c r) cs"

text \<open>\<open>/^r$/.test(s)\<close>\<close>

definition regex_test :: "regex \<Rightarrow> string \<Rightarrow> bool" where
  "regex_test r s = matches r s"

text \<open>\<open>s.replace(/[class]/g, '')\<close>: every character of the class is deleted.\<close>

definition replace_class_all :: "(char \<Rightarrow> bool) \<Rightarrow> string \<Rightarrow> string" where
  "replace_class_all P s = filter (\<lambda>c. \<not> P c) s"

text \<open>The language of a regular expression, to state what the matcher accepts.\<close>

fun lang :: "regex \<Rightarrow> string set" where
  "lang RNone = {}"
| "lang REps = {[]}"
| "lang (RClass P) = {[c] | c. P c}"
| "lang (RAlt a b) = lang a \<union> lang b"
| "lang (RSeq a b) = {u @ v | u v. u \<in> lang a \<and> v \<in> lang b}"
| "lang (RStar a) = {concat ws | ws. set ws \<subseteq> lang a}"

section \<open>Form validator (script.js)\<close>

text \<open>\<open>[^\s@]\<close>\<close>

definition not_space_at :: "char \<Rightarrow> bool" where
  "not_space_at c = (\<not> js_space c \<and> c \<noteq> CHR ''@'')"

text \<open>\<open>emailRegex: /^[^\s@]+@[^\s@]+\.[^\s@]+$/\<close>\<close>

definition emailRegex :: regex where
  "emailRegex =
     RSeq (rplus (RClass not_space_at))
       (RSeq (RClass (\<lambda>c. c = CHR ''@''))
         (RSeq (rplus (RClass not_space_at))
           (RSeq (RClass (\<lambda>c. c = CHR ''.'')) (rplus (RClass not_space_at)))))"

definition validateEmail :: "string \<Rightarrow> bool" where
  "validateEmail email = regex_test emailRegex email"

text \<open>\<open>[1-9]\<close> and the separator class \<open>[\s\-\(\)]\<close>\<close>

definition digit19 :: "char \<Rightarrow> bool" where
  "digit19 c = (49 \<le> (of_char c :: nat) \<and> (of_char c :: nat) \<le> 57)"

definition phone_separator :: "char \<Rightarrow> bool" where
  "phone_separator c = (js_space c \<or> c = CHR ''-'' \<or> c = CHR ''('' \<or> c = CHR '')'')"

text \<open>\<open>phoneRegex = /^[\+]?[1-9][\d]{0,15}$/\<close>\<close>

definition phoneRegex :: regex where
  "phoneRegex =
     RSeq (ropt (RClass (\<lambda>c. c = CHR ''+'')))
       (RSeq (RClass digit19) (rupto 15 (RClass js_digit)))"

definition validatePhone :: "string \<Rightarrow> bool" where
  "validatePhone phone =
     (let cleanPhone = replace_class_all phone_separator phone
      in regex_test phoneRegex cleanPhone)"

definition validateRequired :: "string \<Rightarrow> jsval" where
  "validateRequired v = js_and (JStr v) (JBool (length (trim v) > 0))"

text \<open>
  \<open>validateMessageLength(message, maxLength = 2000)\<close>: \<open>None\<close> is the omitted argument.
\<close>

definition validateMessageLength :: "string \<Rightarrow> int option \<Rightarrow> jsval" where
  "validateMessageLength message maxLength =
     js_and (JStr message)
       (JBool (int (length message) \<le> (case maxLength of None \<Rightarrow> 2000 | Some n \<Rightarrow> n)))"

section \<open>Color utility (config.js)\<close>

text \<open>
  Numbers. The numbers of \<open>darkenColor\<close> are integers, or \<open>NaN\<close> when \<open>parseInt\<close> finds no
  digit. A binary64 number keeps 53 significant bits: \<open>round53\<close> rounds a non-negative
  integer to the nearest one with at most 53 significant bits, ties to even.
\<close>

datatype jsnum = NaN | Num int

function bitlen :: "int \<Rightarrow> nat" where
  "bitlen n = (if n \<le> 0 then 0 else Suc (bitlen (n div 2)))"
  by pat_completeness auto
termination
  by (relation "measure nat") auto

declare bitlen.simps [simp del]

definition round53 :: "int \<Rightarrow> int" where
  "round53 n =
     (if bitlen n \<le> 53 then n
      else let s = bitlen n - 53; q = n div 2 ^ s; r = n mod 2 ^ s; h = 2 ^ (s - 1)
           in (if r > h \<or> (r = h \<and> odd q) then q + 1 else q) * 2 ^ s)"

text \<open>
  \<open>Math.round(2.55 * percent)\<close> for an integer \<open>percent\<close>. The literal \<open>2.55\<close> is the
  binary64 number \<open>5742089524897382 / 2^51\<close>; the product is rounded to binary64, and
  \<open>Math.round\<close> takes the nearest integer, a half going up.
\<close>

definition literal_2_55 :: int where
  "literal_2_55 = 5742089524897382"

definition round_2_55_times :: "int \<Rightarrow> int" where
  "round_2_55_times percent =
     (let product = sgn percent * round53 (literal_2_55 * \<bar>percent\<bar>)
      in (product + 2 ^ 50) div 2 ^ 51)"

text \<open>\<open>ToInt32\<close>, the conversion \<open>>>\<close> and \<open>&\<close> apply to their operands.\<close>

fun toInt32 :: "jsnum \<Rightarrow> int" where
  "toInt32 NaN = 0"
| "toInt32 (Num n) = (n + 2 ^ 31) mod 2 ^ 32 - 2 ^ 31"

definition js_shr :: "jsnum \<Rightarrow> nat \<Rightarrow> int" where
  "js_shr a k = toInt32 a div 2 ^ k"

definition js_band :: "jsnum \<Rightarrow> jsnum \<Rightarrow> int" where
  "js_band a b = toInt32 a AND toInt32 b"

text \<open>\<open>color.replace("#", "")\<close>: the first \<open>#\<close> is deleted.\<close>

fun replace_hash :: "string \<Rightarrow> string" where
  "replace_hash [] = []"
| "replace_hash (c # cs) = (if c = CHR ''#'' then cs else c # replace_hash cs)"

text \<open>
  \<open>parseInt(s, 16)\<close>: leading white space is skipped, then a sign, then \<open>0x\<close> or \<open>0X\<close>;
  the longest run of hexadecimal digits that follows is the value, and \<open>NaN\<close> when the
  run is empty.
\<close>

definition hex_digit :: "char \<Rightarrow> int option" where
  "hex_digit c =
     (let n = (of_char c :: int) in
      if 48 \<le> n \<and> n \<le> 57 then Some (n - 48)
      else if 97 \<le> n \<and> n \<le> 102 then Some (n - 87)
      else if 65 \<le> n \<and> n \<le> 70 then Some (n - 55)
      else None)"

fun hex_run :: "int \<Rightarrow> string \<Rightarrow> int" where
  "hex_run acc [] = acc"
| "hex_run acc (c # cs) = (case hex_digit c of None \<Rightarrow> acc | Some d \<Rightarrow> hex_run (16 * acc + d) cs)"

definition strip_sign :: "string \<Rightarrow> int \<times> string" where
  "strip_sign s =
     (case s of
        c # cs \<Rightarrow> if c = CHR ''-'' then (-1, cs) else if c = CHR ''+'' then (1, cs) else (1, s)
      | [] \<Rightarrow> (1, s))"

definition strip_0x :: "string \<Rightarrow> string" where
  "strip_0x s =
     (case s of
        a # b # cs \<Rightarrow> if a = CHR ''0'' \<and> (b = CHR ''x'' \<or> b = CHR ''X'') then cs else s
      | _ \<Rightarrow> s)"

definition parseInt16 :: "string \<Rightarrow> jsnum" where
  "parseInt16 s =
     (let (sign, t) = strip_sign (dropWhile js_space s); z = strip_0x t
      in case z of
           [] \<Rightarrow> NaN
         | c # cs \<Rightarrow> (if hex_digit c = None then NaN else Num (sign * round53 (hex_run 0 z))))"

text \<open>\<open>n.toString(16)\<close> for an integer \<open>n\<close>.\<close>

definition hex_char :: "int \<Rightarrow> char" where
  "hex_char d = ''0123456789abcdef'' ! nat d"

function to_hex :: "int \<Rightarrow> string" where
  "to_hex n = (if n < 16 then [hex_char n] else to_hex (n div 16) @ [hex_char (n mod 16)])"
  by pat_completeness auto
termination
  by (relation "measure nat") auto

declare to_hex.simps [simp del]

definition toString16 :: "int \<Rightarrow> string" where
  "toString16 n = (if n < 0 then CHR ''-'' # to_hex (- n) else to_hex n)"

text \<open>The lane clamp \<open>(X < 255 ? X < 1 ? 0 : X : 255)\<close>.\<close>

definition clamp_lane :: "int \<Rightarrow> int" where
  "clamp_lane x = (if x < 255 then (if x < 1 then 0 else x) else 255)"

definition darkenColor :: "string \<Rightarrow> int \<Rightarrow> string" where
  "darkenColor color percent =
     (let num = parseInt16 (replace_hash color);
          amt = round_2_55_times percent;
          R = js_shr num 16 - amt;
          G = js_band (Num (js_shr num 8)) (Num 0x00FF) - amt;
          B = js_band num (Num 0x0000FF) - amt
      in ''#'' @ drop 1 (toString16 (0x1000000 + clamp_lane R * 0x10000 +
           clamp_lane G * 0x100 + clamp_lane B)))"

text \<open>
  The lane arithmetic in the words of the specification: a lane value less the amount,
  clamped to \<open>[0, 255]\<close>, written as two hexadecimal digits with a leading zero.
\<close>

definition clamp_byte :: "int \<Rightarrow> int" where
  "clamp_byte x = max 0 (min 255 x)"

definition hex2 :: "int \<Rightarrow> string" where
  "hex2 b = [hex_char (b div 16), hex_char (b mod 16)]"

definition darken_lane :: "int \<Rightarrow> int \<Rightarrow> string" where
  "darken_lane v amt = hex2 (clamp_byte (v - amt))"

text \<open>
  The amount in the words of the specification, \<open>round(2.55 * percent)\<close> in exact
  arithmetic (a half goes up), and the amount that \<open>Math.round(2.55 * percent)\<close> gives
  for a percentage from 0 to 100: the same, except at 50 and 90, where the binary64
  product lies just below the half and the amount is one less.
\<close>

definition exact_amount :: "int \<Rightarrow> int" where
  "exact_amount percent = (255 * percent + 50) div 100"

definition darken_amount :: "int \<Rightarrow> int" where
  "darken_amount percent =
     (if percent = 50 \<or> percent = 90 then exact_amount percent - 1 else exact_amount percent)"

section \<open>The document\<close>

text \<open>
  The browser's document, as far as the two scripts use it. An element is a reference
  into a store of element states, so that two lookups that find the same element share
  its state. The answers of \<open>getElementById\<close>, \<open>querySelector\<close> and \<open>querySelectorAll\<close>
  are part of the document; no selector the scripts use depends on a class or an
  attribute that they change, apart from the structured-data script element, which
  \<open>updateStructuredData\<close> registers when it creates it. Reflected properties
  (\<open>src\<close>, \<open>alt\<close>, \<open>content\<close>, \<open>placeholder\<close>, \<open>type\<close>, \<open>value\<close>) are kept with the
  attributes. A timer is kept as a pending entry; nothing here fires it.
\<close>

type_synonym ref = nat

record element =
  classList :: "string list"
  attributes :: "string \<rightharpoonup> string"
  style :: "string \<rightharpoonup> string"
  textContent :: string
  childNodes :: "ref list"

definition empty_element :: element where
  "empty_element =
     \<lparr>classList = [], attributes = Map.empty, style = Map.empty, textContent = [], childNodes = []\<rparr>"

record dom =
  store :: "ref \<Rightarrow> element"
  fresh :: ref
  documentElement :: ref
  head :: ref
  body :: ref
  byId :: "string \<rightharpoonup> ref"
  selectFirst :: "string \<rightharpoonup> ref"
  selectAll :: "string \<Rightarrow> ref list"
  selectWithin :: "ref \<Rightarrow> string \<Rightarrow> ref list"
  canFocus :: "ref \<Rightarrow> bool"
  activeElement :: "ref option"
  title :: string
  keydownListeners :: "(ref \<times> ref option \<times> ref option) list"
  timeouts :: "(nat \<times> ref) list"

definition update_element :: "ref \<Rightarrow> (element \<Rightarrow> element) \<Rightarrow> dom \<Rightarrow> dom" where
  "update_element r f d = d\<lparr>store := (store d)(r := f (store d r))\<rparr>"

definition setTextContent :: "ref \<Rightarrow> string \<Rightarrow> dom \<Rightarrow> dom" where
  "setTextContent r v = update_element r (\<lambda>e. e\<lparr>textContent := v, childNodes := []\<rparr>)"

definition setAttribute :: "ref \<Rightarrow> string \<Rightarrow> string \<Rightarrow> dom \<Rightarrow> dom" where
  "setAttribute r k v = update_element r (\<lambda>e. e\<lparr>attributes := (attributes e)(k \<mapsto> v)\<rparr>)"

definition setStyle :: "ref \<Rightarrow> string \<Rightarrow> string \<Rightarrow> dom \<Rightarrow> dom" where
  "setStyle r k v = update_element r (\<lambda>e. e\<lparr>style := (style e)(k \<mapsto> v)\<rparr>)"

definition setClassName :: "ref \<Rightarrow> string \<Rightarrow> dom \<Rightarrow> dom" where
  "setClassName r c = update_element r (\<lambda>e. e\<lparr>classList := [c]\<rparr>)"

definition classList_add :: "ref \<Rightarrow> string \<Rightarrow> dom \<Rightarrow> dom" where
  "classList_add r c =
     update_element r
       (\<lambda>e. e\<lparr>classList := (if c \<in> set (classList e) then classList e else classList e @ [c])\<rparr>)"

definition classList_remove :: "ref \<Rightarrow> string \<Rightarrow> dom \<Rightarrow> dom" where
  "classList_remove r c = update_element r (\<lambda>e. e\<lparr>classList := removeAll c (classList e)\<rparr>)"

definition appendChild :: "ref \<Rightarrow> ref \<Rightarrow> dom \<Rightarrow> dom" where
  "appendChild parent child =
     update_element parent (\<lambda>e. e\<lparr>childNodes := childNodes e @ [child]\<rparr>)"

definition createElement :: "dom \<Rightarrow> ref \<times> dom" where
  "createElement d =
     (fresh d, d\<lparr>store := (store d)(fresh d := empty_element), fresh := Suc (fresh d)\<rparr>)"

definition focus :: "ref \<Rightarrow> dom \<Rightarrow> dom" where
  "focus r d = (if canFocus d r then d\<lparr>activeElement := Some r\<rparr> else d)"

text \<open>\<open>const e = document.getElementById(i); if (e) ...\<close>, and the same for a selector.\<close>

definition whenId :: "string \<Rightarrow> (ref \<Rightarrow> dom \<Rightarrow> dom) \<Rightarrow> dom \<Rightarrow> dom" where
  "whenId i f d = (case byId d i of None \<Rightarrow> d | Some r \<Rightarrow> f r d)"

definition whenSelector :: "string \<Rightarrow> (ref \<Rightarrow> dom \<Rightarrow> dom) \<Rightarrow> dom \<Rightarrow> dom" where
  "whenSelector q f d = (case selectFirst d q of None \<Rightarrow> d | Some r \<Rightarrow> f r d)"

section \<open>Accessibility utilities and modal manager (script.js)\<close>

record AppState =
  isContactModalOpen :: bool
  isThankYouModalOpen :: bool
  currentFocusedElement :: "ref option"

definition focusable_selector :: string where
  "focusable_selector =
     ''button, [href], input, select, textarea, [tabindex]:not([tabindex='' @ [CHR 0x22] @ ''-1''
       @ [CHR 0x22] @ ''])''"

text \<open>
  \<open>trapFocus\<close> installs a keydown listener on the element; the listener is kept as the
  element with the first and the last focusable element that the closure captured
  (\<open>undefined\<close> when there is none).
\<close>

definition trapFocus :: "ref \<Rightarrow> dom \<Rightarrow> dom" where
  "trapFocus el d =
     (let focusableElements = selectWithin d el focusable_selector;
          firstElement = (if focusableElements = [] then None else Some (focusableElements ! 0));
          lastElement = (if focusableElements = [] then None
                         else Some (focusableElements ! (length focusableElements - 1)))
      in d\<lparr>keydownListeners := keydownListeners d @ [(el, firstElement, lastElement)]\<rparr>)"

definition announceToScreenReader :: "string \<Rightarrow> dom \<Rightarrow> dom" where
  "announceToScreenReader msg d =
     (let (announcement, d1) = createElement d;
          d2 = setAttribute announcement ''aria-live'' ''polite'' d1;
          d3 = setAttribute announcement ''aria-atomic'' ''true'' d2;
          d4 = setClassName announcement ''sr-only'' d3;
          d5 = setTextContent announcement msg d4;
          d6 = appendChild (body d5) announcement d5
      in d6\<lparr>timeouts := timeouts d6 @ [(1000, announcement)]\<rparr>)"

definition setFocusManagement :: "ref \<Rightarrow> dom \<Rightarrow> dom" where
  "setFocusManagement modal d =
     (let focusableElements = selectWithin d modal focusable_selector
      in if length focusableElements > 0 then focus (focusableElements ! 0) d else d)"

definition openModal :: "string \<Rightarrow> AppState \<times> dom \<Rightarrow> AppState \<times> dom" where
  "openModal modalId sd =
     (case sd of (st, d) \<Rightarrow>
      case byId d modalId of
        None \<Rightarrow> (st, d)
      | Some modal \<Rightarrow>
          let st1 = st\<lparr>currentFocusedElement := activeElement d\<rparr>;
              d1 = classList_add modal ''active'' d;
              d2 = setAttribute modal ''aria-hidden'' ''false'' d1;
              d3 = setStyle (body d2) ''overflow'' ''hidden'' d2;
              d4 = setFocusManagement modal d3;
              d5 = trapFocus modal d4;
              st2 = (if modalId = ''contact-modal'' then st1\<lparr>isContactModalOpen := True\<rparr>
                     else if modalId = ''thank-you-modal'' then st1\<lparr>isThankYouModalOpen := True\<rparr>
                     else st1);
              d6 = (case selectWithin d5 modal ''.modal-title'' of
                      [] \<Rightarrow> d5
                    | modalTitle # _ \<Rightarrow>
                        announceToScreenReader
                          (textContent (store d5 modalTitle) @ '' dialog opened'') d5)
          in (st2, d6))"

definition closeModal :: "string \<Rightarrow> AppState \<times> dom \<Rightarrow> AppState \<times> dom" where
  "closeModal modalId sd =
     (case sd of (st, d) \<Rightarrow>
      case byId d modalId of
        None \<Rightarrow> (st, d)
      | Some modal \<Rightarrow>
          let d1 = classList_remove modal ''active'' d;
              d2 = setAttribute modal ''aria-hidden'' ''true'' d1;
              d3 = setStyle (body d2) ''overflow'' '''' d2;
              (st1, d4) = (case currentFocusedElement st of
                             None \<Rightarrow> (st, d3)
                           | Some el \<Rightarrow> (st\<lparr>currentFocusedElement := None\<rparr>, focus el d3));
              st2 = (if modalId = ''contact-modal'' then st1\<lparr>isContactModalOpen := False\<rparr>
                     else if modalId = ''thank-you-modal'' then st1\<lparr>isThankYouModalOpen := False\<rparr>
                     else st1)
          in (st2, announceToScreenReader ''Dialog closed'' d4))"

definition closeAllModals :: "AppState \<times> dom \<Rightarrow> AppState \<times> dom" where
  "closeAllModals sd =
     (case sd of (st, d) \<Rightarrow>
      let modals = selectAll d ''.modal-overlay'';
          d1 = fold (\<lambda>modal x. setAttribute modal ''aria-hidden'' ''true''
                                  (classList_remove modal ''active'' x)) modals d;
          d2 = setStyle (body d1) ''overflow'' '''' d1
      in (st\<lparr>isContactModalOpen := False, isThankYouModalOpen := False\<rparr>, d2))"

section \<open>Form handling (script.js)\<close>

definition showError :: "string \<Rightarrow> string \<Rightarrow> dom \<Rightarrow> dom" where
  "showError fieldId msg d =
     (let field = byId d fieldId;
          errorElement = byId d (fieldId @ ''-error'');
          d1 = (case field of None \<Rightarrow> d | Some f \<Rightarrow> classList_add f ''error'' d)
      in case errorElement of
           None \<Rightarrow> d1
         | Some e \<Rightarrow> classList_add e ''show'' (setTextContent e msg d1))"

definition clearError :: "string \<Rightarrow> dom \<Rightarrow> dom" where
  "clearError fieldId d =
     (let field = byId d fieldId;
          errorElement = byId d (fieldId @ ''-error'');
          d1 = (case field of None \<Rightarrow> d | Some f \<Rightarrow> classList_remove f ''error'' d)
      in case errorElement of
           None \<Rightarrow> d1
         | Some e \<Rightarrow> classList_remove e ''show'' (setTextContent e '''' d1))"

record rule =
  validator :: "string \<Rightarrow> jsval"
  message :: string

text \<open>
  The loop of \<open>validateField\<close>: \<open>isValid\<close> and \<open>errorMessage\<close> start as \<open>true\<close> and
  \<open>''\<close>, and the first rule whose validator returns a falsy value sets them and breaks.
\<close>

fun validationLoop :: "string \<Rightarrow> rule list \<Rightarrow> bool \<times> string" where
  "validationLoop v [] = (True, '''')"
| "validationLoop v (r # rs) =
     (if \<not> truthy (validator r v) then (False, message r) else validationLoop v rs)"

definition validateField :: "string \<Rightarrow> string \<Rightarrow> rule list \<Rightarrow> dom \<Rightarrow> bool \<times> dom" where
  "validateField fieldId v validationRules d =
     (let (isValid, errorMessage) = validationLoop v validationRules
      in (isValid, if isValid then clearError fieldId d else showError fieldId errorMessage d))"

definition emailRules :: "rule list" where
  "emailRules =
     [\<lparr>validator = (\<lambda>v. validateRequired v), message = ''Email address is required''\<rparr>,
      \<lparr>validator = (\<lambda>v. JBool (validateEmail v)),
       message = ''Please enter a valid email address''\<rparr>]"

definition nameRules :: "rule list" where
  "nameRules =
     [\<lparr>validator = (\<lambda>v. JBool (\<not> truthy (JStr v) \<or> length (trim v) \<ge> 2)),
       message = ''Name must be at least 2 characters long''\<rparr>]"

definition phoneRules :: "rule list" where
  "phoneRules =
     [\<lparr>validator = (\<lambda>v. JBool (\<not> truthy (JStr v) \<or> validatePhone v)),
       message = ''Please enter a valid phone number''\<rparr>]"

definition reasonRules :: "rule list" where
  "reasonRules =
     [\<lparr>validator = (\<lambda>v. validateRequired v),
       message = ''Please select a reason for contact''\<rparr>]"

definition messageRules :: "rule list" where
  "messageRules =
     [\<lparr>validator = (\<lambda>v. validateRequired v), message = ''Message is required''\<rparr>,
      \<lparr>validator = (\<lambda>v. validateMessageLength v None),
       message = ''Message must be 2000 characters or less''\<rparr>]"

definition validateLoginForm :: "string \<Rightarrow> dom \<Rightarrow> bool \<times> dom" where
  "validateLoginForm email d = validateField ''email'' email emailRules d"

record formData =
  form_email :: string
  form_name :: string
  form_phone :: string
  form_reason :: string
  form_message :: string

definition validateContactForm :: "formData \<Rightarrow> dom \<Rightarrow> bool \<times> dom" where
  "validateContactForm fd d =
     (let (emailValid, d1) = validateField ''contact-email'' (form_email fd) emailRules d;
          (nameValid, d2) = validateField ''contact-name'' (form_name fd) nameRules d1;
          (phoneValid, d3) = validateField ''contact-phone'' (form_phone fd) phoneRules d2;
          (reasonValid, d4) = validateField ''contact-reason'' (form_reason fd) reasonRules d3;
          (messageValid, d5) = validateField ''contact-message'' (form_message fd) messageRules d4
      in (emailValid \<and> nameValid \<and> phoneValid \<and> reasonValid \<and> messageValid, d5))"

section \<open>Brand registry (config.js)\<close>

record LabelSet =
  loginLabel :: string
  loginPagePara :: string
  createAccountLabel :: string
  buttonLabelNext :: string
  needHelpLabel :: string
  keepMeSignedIn :: string
  passwordLabel :: string
  forgetPasswordLabel :: string
  contactUsTitle :: string
  thankYouTitle :: string
  thankYouMessage :: string
  sendButton :: string
  okButton :: string
  userSupportTitle :: string
  phoneNumber :: string
  emailLabel :: string
  nameLabel :: string
  phoneLabel :: string
  reasonLabel :: string
  messageLabel :: string
  messagePlaceholder :: string
  reasonOptions :: "(string \<times> string) list"

record BrandConfig =
  name :: string
  logoPath :: string
  tagline :: string
  primaryColor :: string
  secondaryColor :: string
  labels :: LabelSet

definition standardReasonOptions :: "(string \<times> string) list" where
  "standardReasonOptions =
     [('''', ''Select...''),
      (''technical-support'', ''Technical Support''),
      (''billing'', ''Billing''),
      (''general-inquiry'', ''General Inquiry''),
      (''feature-request'', ''Feature Request''),
      (''other'', ''Other'')]"

definition greenheck :: BrandConfig where
  "greenheck =
     \<lparr>name = ''Greenheck'',
      logoPath = ''Greenheck_Logo.png'',
      tagline = '''',
      primaryColor = ''#1e40af'',
      secondaryColor = ''#6b7280'',
      labels =
        \<lparr>loginLabel = ''Log In'',
         loginPagePara = ''Please log in to your Greenheck account.'',
         createAccountLabel = ''Create Account'',
         buttonLabelNext = ''Next'',
         needHelpLabel = ''Need help?'',
         keepMeSignedIn = ''Keep me signed in'',
         passwordLabel = ''Password'',
         forgetPasswordLabel = ''Forget Password?'',
         contactUsTitle = ''Contact Us'',
         thankYouTitle = ''Thank You!'',
         thankYouMessage =
           ''Your Contact request has been submitted. A team member will contact you soon.'',
         sendButton = ''Send'',
         okButton = ''OK'',
         userSupportTitle = ''User Support:'',
         phoneNumber = ''(855) 886-8324'',
         emailLabel = ''*Email Address'',
         nameLabel = ''Name'',
         phoneLabel = ''Phone Number'',
         reasonLabel = ''*Reason'',
         messageLabel = ''*Message'',
         messagePlaceholder = ''Enter Message'',
         reasonOptions = standardReasonOptions\<rparr>\<rparr>"

definition neutral :: BrandConfig where
  "neutral =
     \<lparr>name = ''Company'',
      logoPath = ''https://via.placeholder.com/200x60/4b5563/ffffff?text=LOGO'',
      tagline = '''',
      primaryColor = ''#4b5563'',
      secondaryColor = ''#6b7280'',
      labels =
        \<lparr>loginLabel = ''Log In'',
         loginPagePara = ''Please log in to your account.'',
         createAccountLabel = ''Create Account'',
         buttonLabelNext = ''Next'',
         needHelpLabel = ''Need help?'',
         keepMeSignedIn = ''Keep me signed in'',
         passwordLabel = ''Password'',
         forgetPasswordLabel = ''Forget Password?'',
         contactUsTitle = ''Contact Us'',
         thankYouTitle = ''Thank You!'',
         thankYouMessage =
           ''Your Contact request has been submitted. A team member will contact you soon.'',
         sendButton = ''Send'',
         okButton = ''OK'',
         userSupportTitle = ''User Support:'',
         phoneNumber = ''(855) 123-4567'',
         emailLabel = ''*Email Address'',
         nameLabel = ''Name'',
         phoneLabel = ''Phone Number'',
         reasonLabel = ''*Reason'',
         messageLabel = ''*Message'',
         messagePlaceholder = ''Enter Message'',
         reasonOptions = standardReasonOptions\<rparr>\<rparr>"

text \<open>The own properties of the object literal \<open>BRAND_CONFIGS\<close>, in order.\<close>

definition BRAND_CONFIGS :: "(string \<times> BrandConfig) list" where
  "BRAND_CONFIGS = [(''greenheck'', greenheck), (''neutral'', neutral)]"

text \<open>
  \<open>BRAND_CONFIGS[key]\<close> is a property read on an ordinary object: a key that is not an
  own property is looked up in \<open>Object.prototype\<close>, which every object literal inherits
  from. The read gives the registered record, or the inherited member (a function, or
  for \<open>__proto__\<close> the prototype object itself), or \<open>undefined\<close>.
\<close>

definition object_prototype_keys :: "string list" where
  "object_prototype_keys =
     [''constructor'', ''__defineGetter__'', ''__defineSetter__'', ''hasOwnProperty'',
      ''__lookupGetter__'', ''__lookupSetter__'', ''isPrototypeOf'', ''propertyIsEnumerable'',
      ''toString'', ''valueOf'', ''__proto__'', ''toLocaleString'']"

datatype brandval = Config BrandConfig | Inherited string | Undefined

definition brand_lookup :: "string \<Rightarrow> brandval" where
  "brand_lookup key =
     (case map_of BRAND_CONFIGS key of
        Some c \<Rightarrow> Config c
      | None \<Rightarrow> if key \<in> set object_prototype_keys then Inherited key else Undefined)"

fun brand_truthy :: "brandval \<Rightarrow> bool" where
  "brand_truthy Undefined = False"
| "brand_truthy (Config c) = True"
| "brand_truthy (Inherited k) = True"

text \<open>\<open>getAvailableBrands: () => Object.keys(BRAND_CONFIGS)\<close>\<close>

definition getAvailableBrands :: "string list" where
  "getAvailableBrands = map fst BRAND_CONFIGS"

text \<open>\<open>return BRAND_CONFIGS[currentBrand] || BRAND_CONFIGS.greenheck\<close>\<close>

definition getCurrentBrandConfig :: "string \<Rightarrow> brandval" where
  "getCurrentBrandConfig currentBrand =
     (if brand_truthy (brand_lookup currentBrand) then brand_lookup currentBrand
      else brand_lookup ''greenheck'')"

text \<open>
  What a property read gives on the value that \<open>getCurrentBrandConfig\<close> returned;
  \<open>None\<close> is \<open>undefined\<close>. A function has a \<open>name\<close> (\<open>Object\<close> for the constructor) and
  none of the other properties; \<open>Object.prototype\<close> has none of them.
\<close>

fun config_name :: "brandval \<Rightarrow> string option" where
  "config_name (Config c) = Some (name c)"
| "config_name (Inherited k) =
     (if k = ''__proto__'' then None else if k = ''constructor'' then Some ''Object'' else Some k)"
| "config_name Undefined = None"

fun config_logoPath :: "brandval \<Rightarrow> string option" where
  "config_logoPath (Config c) = Some (logoPath c)"
| "config_logoPath _ = None"

fun config_tagline :: "brandval \<Rightarrow> string option" where
  "config_tagline (Config c) = Some (tagline c)"
| "config_tagline _ = None"

text \<open>Conversion to a string in a template literal or a \<open>DOMString\<close> attribute.\<close>

definition js_toString :: "string option \<Rightarrow> string" where
  "js_toString v = (case v of None \<Rightarrow> ''undefined'' | Some s \<Rightarrow> s)"

text \<open>Conversion for the nullable \<open>textContent\<close>: \<open>undefined\<close> empties the element.\<close>

definition nullable_text :: "string option \<Rightarrow> string" where
  "nullable_text v = (case v of None \<Rightarrow> '''' | Some s \<Rightarrow> s)"

section \<open>Brand applier (config.js)\<close>

datatype js_error = TypeError string

type_synonym 's outcome = "js_error option \<times> 's"

definition and_then :: "'s outcome \<Rightarrow> ('s \<Rightarrow> 's outcome) \<Rightarrow> 's outcome" where
  "and_then r f = (case r of (None, s) \<Rightarrow> f s | (Some e, s) \<Rightarrow> (Some e, s))"

definition updateContactFormLabels :: "LabelSet \<Rightarrow> dom \<Rightarrow> dom" where
  "updateContactFormLabels ls d =
     (let q = (\<lambda>f. ''label[for='' @ [CHR 0x22] @ f @ [CHR 0x22] @ ''] span'');
          d1 = whenSelector (q ''contact-email'') (\<lambda>r. setTextContent r (emailLabel ls)) d;
          d2 = whenSelector (q ''contact-name'') (\<lambda>r. setTextContent r (nameLabel ls)) d1;
          d3 = whenSelector (q ''contact-phone'') (\<lambda>r. setTextContent r (phoneLabel ls)) d2;
          d4 = whenSelector (q ''contact-reason'') (\<lambda>r. setTextContent r (reasonLabel ls)) d3;
          d5 = whenSelector (q ''contact-message'') (\<lambda>r. setTextContent r (messageLabel ls)) d4
      in whenId ''contact-message'' (\<lambda>r. setAttribute r ''placeholder'' (messagePlaceholder ls)) d5)"

definition addOption :: "ref \<Rightarrow> string \<times> string \<Rightarrow> dom \<Rightarrow> dom" where
  "addOption reasonSelect opt d =
     (let (optionElement, d1) = createElement d;
          d2 = setAttribute optionElement ''value'' (fst opt) d1;
          d3 = setTextContent optionElement (snd opt) d2
      in appendChild reasonSelect optionElement d3)"

definition updateReasonOptions :: "(string \<times> string) list \<Rightarrow> dom \<Rightarrow> dom" where
  "updateReasonOptions options d =
     whenId ''contact-reason''
       (\<lambda>reasonSelect x. fold (addOption reasonSelect) options (setTextContent reasonSelect '''' x)) d"

text \<open>
  \<open>if (b) b.querySelector('span').textContent = v\<close>: a button without a \<open>span\<close> makes
  the assignment a \<open>TypeError\<close>.
\<close>

definition setButtonSpan :: "string \<Rightarrow> string \<Rightarrow> dom \<Rightarrow> dom outcome" where
  "setButtonSpan i v d =
     (case byId d i of
        None \<Rightarrow> (None, d)
      | Some b \<Rightarrow>
          (case selectWithin d b ''span'' of
             [] \<Rightarrow> (Some (TypeError ''Cannot set properties of null (setting textContent)''), d)
           | sp # _ \<Rightarrow> (None, setTextContent sp v d)))"

definition updateLabels :: "LabelSet \<Rightarrow> dom \<Rightarrow> dom outcome" where
  "updateLabels ls d =
     (let d1 = whenId ''login-heading'' (\<lambda>r. setTextContent r (loginLabel ls)) d;
          d2 = whenId ''login-description'' (\<lambda>r. setTextContent r (loginPagePara ls)) d1;
          d3 = whenId ''email-label'' (\<lambda>r. setTextContent r (emailLabel ls)) d2;
          d4 = whenId ''keep-signed-in-label'' (\<lambda>r. setTextContent r (keepMeSignedIn ls)) d3;
          d5 = whenId ''next-button-text'' (\<lambda>r. setTextContent r (buttonLabelNext ls)) d4;
          d6 = whenId ''create-account-link'' (\<lambda>r. setTextContent r (createAccountLabel ls)) d5;
          d7 = whenId ''need-help-link'' (\<lambda>r. setTextContent r (needHelpLabel ls)) d6;
          d8 = whenId ''contact-modal-title'' (\<lambda>r. setTextContent r (contactUsTitle ls)) d7;
          d9 = whenSelector ''.support-title'' (\<lambda>r. setTextContent r (userSupportTitle ls)) d8;
          d10 = whenSelector ''.phone-number'' (\<lambda>r. setTextContent r (phoneNumber ls)) d9;
          d11 = updateContactFormLabels ls d10;
          d12 = updateReasonOptions (reasonOptions ls) d11;
          d13 = whenId ''thank-you-modal-title'' (\<lambda>r. setTextContent r (thankYouTitle ls)) d12;
          d14 = whenSelector ''.thank-you-message'' (\<lambda>r. setTextContent r (thankYouMessage ls)) d13
      in and_then (setButtonSpan ''ok-button'' (okButton ls) d14)
           (setButtonSpan ''send-button'' (sendButton ls)))"

definition updateColors :: "string \<Rightarrow> string \<Rightarrow> dom \<Rightarrow> dom" where
  "updateColors primary secondary d =
     (let root = documentElement d;
          d1 = setStyle root ''--primary-blue'' primary d;
          d2 = setStyle root ''--secondary-gray'' secondary d1;
          d3 = setStyle root ''--brand-primary-color'' primary d2;
          d4 = setStyle root ''--brand-secondary-color'' secondary d3;
          d5 = setStyle root ''--brand-accent-color'' primary d4;
          d6 = setStyle root ''--brand-accent-hover'' (darkenColor primary 20) d5;
          d7 = setStyle root ''--brand-link-color'' primary d6;
          d8 = setStyle root ''--brand-link-hover'' (darkenColor primary 20) d7;
          d9 = setStyle root ''--brand-focus-color'' primary d8;
          d10 = setStyle root ''--btn-bg'' primary d9;
          d11 = setStyle root ''--link-color'' primary d10
      in setStyle root ''--btn-border-color'' primary d11)"

text \<open>\<open>String.prototype.toLowerCase\<close> on code units below 256.\<close>

definition toLowerCase :: "string \<Rightarrow> string" where
  "toLowerCase s =
     map (\<lambda>c. let n = (of_char c :: nat)
               in if (65 \<le> n \<and> n \<le> 90) \<or> (192 \<le> n \<and> n \<le> 222 \<and> n \<noteq> 215)
                  then char_of (n + 32) else c) s"

text \<open>\<open>JSON.stringify\<close> of a string and of the structured-data object.\<close>

definition json_escape :: "char \<Rightarrow> string" where
  "json_escape c =
     (let n = (of_char c :: nat) in
      if c = CHR 0x22 then [CHR 0x5C, CHR 0x22]
      else if c = CHR 0x5C then [CHR 0x5C, CHR 0x5C]
      else if n = 8 then [CHR 0x5C, CHR ''b'']
      else if n = 12 then [CHR 0x5C, CHR ''f'']
      else if n = 10 then [CHR 0x5C, CHR ''n'']
      else if n = 13 then [CHR 0x5C, CHR ''r'']
      else if n = 9 then [CHR 0x5C, CHR ''t'']
      else if n < 32 then [CHR 0x5C, CHR ''u'', CHR ''0'', CHR ''0'',
                           hex_char (int (n div 16)), hex_char (int (n mod 16))]
      else [c])"

definition json_string :: "string \<Rightarrow> string" where
  "json_string s = [CHR 0x22] @ concat (map json_escape s) @ [CHR 0x22]"

definition json_object :: "(string \<times> string) list \<Rightarrow> string" where
  "json_object members =
     ''{'' @ concat (map (\<lambda>(i, kv). (if i = 0 then '''' else '','') @ json_string (fst kv) @ '':'' @ snd kv)
                      (zip [0..<length members] members)) @ ''}''"

definition structured_data_selector :: string where
  "structured_data_selector =
     ''script[type='' @ [CHR 0x22] @ ''application/ld+json'' @ [CHR 0x22] @ '']''"

definition updateStructuredData :: "BrandConfig \<Rightarrow> dom \<Rightarrow> dom" where
  "updateStructuredData config d =
     (let structuredData =
            json_object
              [(''@context'', json_string ''https://schema.org''),
               (''@type'', json_string ''WebPage''),
               (''name'', json_string (loginLabel (labels config) @ '' Page'')),
               (''description'',
                  json_string (loginLabel (labels config) @ '' page for '' @ name config
                    @ '' user authentication'')),
               (''publisher'',
                  json_object
                    [(''@type'', json_string ''Organization''),
                     (''name'', json_string (name config)),
                     (''url'', json_string (''https://www.'' @ toLowerCase (name config) @ ''.com''))])];
          (script, d1) =
            (case selectFirst d structured_data_selector of
               Some s \<Rightarrow> (s, d)
             | None \<Rightarrow>
                 let (s, x1) = createElement d;
                     x2 = setAttribute s ''type'' ''application/ld+json'' x1;
                     x3 = appendChild (head x2) s x2
                 in (s, x3\<lparr>selectFirst := (selectFirst x3)(structured_data_selector \<mapsto> s)\<rparr>))
      in setTextContent script structuredData d1)"

text \<open>
  \<open>applyBrandConfiguration\<close> reads \<open>config.labels.loginLabel\<close> for the title; on a value
  without \<open>labels\<close> that read is a \<open>TypeError\<close>, after the logo and the tagline have been
  written.
\<close>

definition applyBrandConfiguration :: "string \<Rightarrow> dom \<Rightarrow> dom outcome" where
  "applyBrandConfiguration currentBrand d =
     (let config = getCurrentBrandConfig currentBrand;
          d1 = whenId ''company-logo''
                 (\<lambda>logo x. setAttribute logo ''alt'' (js_toString (config_name config) @ '' Logo'')
                             (setAttribute logo ''src'' (js_toString (config_logoPath config)) x)) d;
          d2 = whenId ''company-tagline''
                 (\<lambda>r. setTextContent r (nullable_text (config_tagline config))) d1
      in case config of
           Config c \<Rightarrow>
             let d3 = d2\<lparr>title := loginLabel (labels c) @ '' - '' @ name c\<rparr>;
                 d4 = whenSelector (''meta[name='' @ [CHR 0x22] @ ''description'' @ [CHR 0x22] @ '']'')
                        (\<lambda>r. setAttribute r ''content''
                                (loginLabel (labels c) @ '' to your '' @ name c
                                  @ '' account - Secure access to your dashboard'')) d3
             in and_then (updateLabels (labels c) d4)
                  (\<lambda>d5. (None, updateStructuredData c
                                  (updateColors (primaryColor c) (secondaryColor c) d5)))
         | _ \<Rightarrow>
             (Some (TypeError ''Cannot read properties of undefined (reading loginLabel)''), d2))"

record page =
  currentBrand :: string
  document :: dom
  console :: "(string \<times> string) list"

definition initial_currentBrand :: string where
  "initial_currentBrand = ''greenheck''"

definition setBrand :: "string \<Rightarrow> page \<Rightarrow> page outcome" where
  "setBrand brandName pg =
     (if brand_truthy (brand_lookup brandName) then
        (let pg1 = pg\<lparr>currentBrand := brandName\<rparr>;
             (e, d) = applyBrandConfiguration (currentBrand pg1) (document pg1)
         in (e, pg1\<lparr>document := d\<rparr>))
      else
        (None, pg\<lparr>console := console pg @
           [(''warn'', ''Brand configuration '' @ [CHR 0x27] @ brandName @ [CHR 0x27]
               @ '' not found. Using default.'')]\<rparr>))"

text \<open>\<open>initializeConfig\<close>; \<open>brandParam\<close> is \<open>urlParams.get('brand')\<close>, \<open>None\<close> for \<open>null\<close>.\<close>

definition initializeConfig :: "string option \<Rightarrow> page \<Rightarrow> page outcome" where
  "initializeConfig brandParam pg =
     (case brandParam of
        Some b \<Rightarrow>
          if b \<noteq> [] \<and> brand_truthy (brand_lookup b) then setBrand b pg
          else (let (e, d) = applyBrandConfiguration (currentBrand pg) (document pg)
                in (e, pg\<lparr>document := d\<rparr>))
      | None \<Rightarrow>
          (let (e, d) = applyBrandConfiguration (currentBrand pg) (document pg)
           in (e, pg\<lparr>document := d\<rparr>)))"

text \<open>
  The error a rule list reports for a value, in the words of the specification: the
  message of the first rule that fails, and none when every rule passes.
\<close>

definition first_failure :: "rule list \<Rightarrow> string \<Rightarrow> string option" where
  "first_failure rules v = map_option message (find (\<lambda>r. \<not> truthy (validator r v)) rules)"

text \<open>The five fields of the contact form: element id, submitted value, rule list.\<close>

definition contact_fields :: "formData \<Rightarrow> (string \<times> string \<times> rule list) list" where
  "contact_fields fd =
     [(''contact-email'', form_email fd, emailRules),
      (''contact-name'', form_name fd, nameRules),
      (''contact-phone'', form_phone fd, phoneRules),
      (''contact-reason'', form_reason fd, reasonRules),
      (''contact-message'', form_message fd, messageRules)]"

section \<open>Sample states\<close>

text \<open>
  \<open>initial_AppState\<close> is the \<open>AppState\<close> literal of script.js. The documents are small
  concrete pages on which the theorems are instantiated: an empty one, and one with the
  contact modal (3) and its close button (4), the need-help link (5), which has the
  focus, and the reason and message fields (6, 8) with their error elements (7, 9).
\<close>

definition initial_AppState :: AppState where
  "initial_AppState =
     \<lparr>isContactModalOpen = False, isThankYouModalOpen = False, currentFocusedElement = None\<rparr>"

definition blank_document :: dom where
  "blank_document =
     \<lparr>store = (\<lambda>r. empty_element), fresh = 3, documentElement = 0, head = 1, body = 2,
      byId = Map.empty, selectFirst = Map.empty, selectAll = (\<lambda>q. []),
      selectWithin = (\<lambda>r q. []), canFocus = (\<lambda>r. False), activeElement = None,
      title = '''', keydownListeners = [], timeouts = []\<rparr>"

definition blank_page :: page where
  "blank_page = \<lparr>currentBrand = initial_currentBrand, document = blank_document, console = []\<rparr>"

definition sample_document :: dom where
  "sample_document =
     \<lparr>store = (\<lambda>r. empty_element), fresh = 10, documentElement = 0, head = 1, body = 2,
      byId = [''contact-modal'' \<mapsto> 3, ''close-contact-modal'' \<mapsto> 4, ''need-help-link'' \<mapsto> 5,
              ''contact-reason'' \<mapsto> 6, ''contact-reason-error'' \<mapsto> 7,
              ''contact-message'' \<mapsto> 8, ''contact-message-error'' \<mapsto> 9],
      selectFirst = Map.empty,
      selectAll = (\<lambda>q. if q = ''.modal-overlay'' then [3] else []),
      selectWithin = (\<lambda>r q. if r = 3 \<and> q = focusable_selector then [4] else []),
      canFocus = (\<lambda>r. r = 4 \<or> r = 5), activeElement = Some 5,
      title = '''', keydownListeners = [], timeouts = []\<rparr>"

section \<open>The matcher decides the language\<close>

lemma nullable_lang: "nullable r \<longleftrightarrow> [] \<in> lang r"
proof (induction r)
  case (RStar r)
  have "[] = concat [] \<and> set [] \<subseteq> lang r" by simp
  then show ?case by (metis (mono_tags, lifting) lang.simps(6) mem_Collect_eq nullable.simps(6))
qed auto

lemma star_cons:
  "c # w \<in> lang (RStar a) \<longleftrightarrow> (\<exists>u v. c # u \<in> lang a \<and> v \<in> lang (RStar a) \<and> w = u @ v)"
proof
  assume "c # w \<in> lang (RStar a)"
  then obtain ws where ws: "c # w = concat ws" "set ws \<subseteq> lang a" by auto
  then show "\<exists>u v. c # u \<in> lang a \<and> v \<in> lang (RStar a) \<and> w = u @ v"
  proof (induction ws)
    case Nil
    then show ?case by simp
  next
    case (Cons x xs)
    show ?case
    proof (cases x)
      case Nil
      with Cons show ?thesis by simp
    next
      case (Cons y ys)
      with Cons.prems have "y = c" "w = ys @ concat xs" "c # ys \<in> lang a" "set xs \<subseteq> lang a"
        by auto
      then show ?thesis by auto
    qed
  qed
next
  assume "\<exists>u v. c # u \<in> lang a \<and> v \<in> lang (RStar a) \<and> w = u @ v"
  then obtain u ws where "c # u \<in> lang a" "set ws \<subseteq> lang a" "w = u @ concat ws" by auto
  then have "c # w = concat ((c # u) # ws) \<and> set ((c # u) # ws) \<subseteq> lang a" by simp
  then show "c # w \<in> lang (RStar a)" unfolding lang.simps by blast
qed

lemma deriv_lang: "w \<in> lang (deriv c r) \<longleftrightarrow> c # w \<in> lang r"
proof (induction r arbitrary: w)
  case (RSeq a b)
  then show ?case
    by (auto simp: nullable_lang Cons_eq_append_conv)
next
  case (RStar a)
  then show ?case
    using star_cons [of c w a] by auto
qed auto

lemma matches_lang: "matches r s \<longleftrightarrow> s \<in> lang r"
  by (induction s arbitrary: r) (simp_all add: nullable_lang deriv_lang)

lemma lang_star_class: "lang (RStar (RClass P)) = {w. list_all P w}"
proof (intro set_eqI iffI)
  fix w assume "w \<in> lang (RStar (RClass P))"
  then obtain ws where "w = concat ws" "set ws \<subseteq> {[c] | c. P c}" by auto
  then have "list_all P w"
    by (induction ws arbitrary: w) auto
  then show "w \<in> {w. list_all P w}" by simp
next
  fix w assume "w \<in> {w. list_all P w}"
  then have "w = concat (map (\<lambda>c. [c]) w) \<and> set (map (\<lambda>c. [c]) w) \<subseteq> lang (RClass P)"
    by (induction w) auto
  then show "w \<in> lang (RStar (RClass P))" unfolding lang.simps(6) by blast
qed


lemma lang_plus_class: "lang (rplus (RClass P)) = {w. w \<noteq> [] \<and> list_all P w}"
proof (intro set_eqI iffI)
  fix w assume "w \<in> lang (rplus (RClass P))"
  then obtain u v where "w = u @ v" "u \<in> lang (RClass P)" "v \<in> lang (RStar (RClass P))"
    unfolding rplus_def lang.simps(5) by blast
  then show "w \<in> {w. w \<noteq> [] \<and> list_all P w}"
    unfolding lang_star_class by auto
next
  fix w assume "w \<in> {w. w \<noteq> [] \<and> list_all P w}"
  then obtain c v where w: "w = [c] @ v" "P c" "list_all P v" by (cases w) auto
  then have "[c] \<in> lang (RClass P)" "v \<in> lang (RStar (RClass P))"
    unfolding lang_star_class by auto
  then show "w \<in> lang (rplus (RClass P))"
    unfolding rplus_def lang.simps(5) w(1) by blast
qed

lemma lang_opt_class: "lang (ropt (RClass P)) = {w. w = [] \<or> (\<exists>c. w = [c] \<and> P c)}"
  by (auto simp: ropt_def)

lemma lang_upto_class: "lang (rupto n (RClass P)) = {w. length w \<le> n \<and> list_all P w}"
proof (induction n)
  case 0
  then show ?case by auto
next
  case (Suc n)
  show ?case
  proof (intro set_eqI iffI)
    fix w assume "w \<in> lang (rupto (Suc n) (RClass P))"
    then consider "w = []" | c v where "w = [c] @ v" "P c" "v \<in> lang (rupto n (RClass P))"
      by auto
    then show "w \<in> {w. length w \<le> Suc n \<and> list_all P w}"
    proof cases
      case 1
      then show ?thesis by simp
    next
      case 2
      then show ?thesis unfolding Suc by simp
    qed
  next
    fix w assume w: "w \<in> {w. length w \<le> Suc n \<and> list_all P w}"
    show "w \<in> lang (rupto (Suc n) (RClass P))"
    proof (cases w)
      case Nil
      then show ?thesis by simp
    next
      case (Cons c v)
      with w have "length v \<le> n \<and> list_all P v" by simp
      then have "v \<in> lang (rupto n (RClass P))" unfolding Suc by simp
      moreover have "[c] \<in> lang (RClass P)" using w Cons by simp
      ultimately have "[c] @ v \<in> lang (RSeq (RClass P) (rupto n (RClass P)))"
        unfolding lang.simps(5) by blast
      with Cons show ?thesis by simp
    qed
  qed
qed

lemma seqE:
  assumes "w \<in> lang (RSeq a b)"
  obtains u v where "w = u @ v" "u \<in> lang a" "v \<in> lang b"
  using assms by auto

lemma seqI: "u \<in> lang a \<Longrightarrow> v \<in> lang b \<Longrightarrow> u @ v \<in> lang (RSeq a b)"
  by auto

lemma in_chr: "w \<in> lang (RClass (\<lambda>c. c = k)) \<longleftrightarrow> w = [k]"
  by auto

lemma lang_email:
  "e \<in> lang emailRegex \<longleftrightarrow>
     (\<exists>l x y. e = l @ ''@'' @ x @ ''.'' @ y \<and> l \<in> lang (rplus (RClass not_space_at))
        \<and> x \<in> lang (rplus (RClass not_space_at)) \<and> y \<in> lang (rplus (RClass not_space_at)))"
proof
  assume "e \<in> lang emailRegex"
  then obtain l v1 where 1: "e = l @ v1" "l \<in> lang (rplus (RClass not_space_at))"
    and r1: "v1 \<in> lang (RSeq (RClass (\<lambda>c. c = CHR ''@''))
         (RSeq (rplus (RClass not_space_at))
           (RSeq (RClass (\<lambda>c. c = CHR ''.'')) (rplus (RClass not_space_at)))))"
    unfolding emailRegex_def by (rule seqE)
  from r1 obtain a v2 where 2: "v1 = a @ v2" "a \<in> lang (RClass (\<lambda>c. c = CHR ''@''))"
    and r2: "v2 \<in> lang (RSeq (rplus (RClass not_space_at))
           (RSeq (RClass (\<lambda>c. c = CHR ''.'')) (rplus (RClass not_space_at))))"
    by (rule seqE)
  from r2 obtain x v3 where 3: "v2 = x @ v3" "x \<in> lang (rplus (RClass not_space_at))"
    and r3: "v3 \<in> lang (RSeq (RClass (\<lambda>c. c = CHR ''.'')) (rplus (RClass not_space_at)))"
    by (rule seqE)
  from r3 obtain d y where 4: "v3 = d @ y" "d \<in> lang (RClass (\<lambda>c. c = CHR ''.''))"
    and y: "y \<in> lang (rplus (RClass not_space_at))"
    by (rule seqE)
  have "a = ''@''" "d = ''.''" using 2(2) 4(2) by (simp_all only: in_chr)
  then have "e = l @ ''@'' @ x @ ''.'' @ y" using 1(1) 2(1) 3(1) 4(1) by simp
  then show "\<exists>l x y. e = l @ ''@'' @ x @ ''.'' @ y \<and> l \<in> lang (rplus (RClass not_space_at))
        \<and> x \<in> lang (rplus (RClass not_space_at)) \<and> y \<in> lang (rplus (RClass not_space_at))"
    using 1(2) 3(2) y by blast
next
  assume "\<exists>l x y. e = l @ ''@'' @ x @ ''.'' @ y \<and> l \<in> lang (rplus (RClass not_space_at))
        \<and> x \<in> lang (rplus (RClass not_space_at)) \<and> y \<in> lang (rplus (RClass not_space_at))"
  then obtain l x y where e: "e = l @ ''@'' @ x @ ''.'' @ y"
    and l: "l \<in> lang (rplus (RClass not_space_at))"
    and x: "x \<in> lang (rplus (RClass not_space_at))"
    and y: "y \<in> lang (rplus (RClass not_space_at))" by blast
  have "''@'' \<in> lang (RClass (\<lambda>c. c = CHR ''@''))" "''.'' \<in> lang (RClass (\<lambda>c. c = CHR ''.''))"
    by (simp_all only: in_chr)
  then show "e \<in> lang emailRegex"
    unfolding emailRegex_def e by (intro seqI l x y)
qed

lemma lang_phone:
  "p \<in> lang phoneRegex \<longleftrightarrow>
     (\<exists>s d r. p = s @ d # r \<and> (s = [] \<or> s = ''+'') \<and> digit19 d \<and> length r \<le> 15 \<and> list_all js_digit r)"
proof
  assume "p \<in> lang phoneRegex"
  then obtain s v1 where 1: "p = s @ v1" "s \<in> lang (ropt (RClass (\<lambda>c. c = CHR ''+'')))"
    and q1: "v1 \<in> lang (RSeq (RClass digit19) (rupto 15 (RClass js_digit)))"
    unfolding phoneRegex_def by (rule seqE)
  from q1 obtain u r where 2: "v1 = u @ r" "u \<in> lang (RClass digit19)"
    and 3: "r \<in> lang (rupto 15 (RClass js_digit))"
    by (rule seqE)
  from 2(2) obtain d where d: "u = [d]" "digit19 d" by auto
  have "s = [] \<or> s = ''+''" using 1(2) unfolding lang_opt_class by auto
  moreover have "length r \<le> 15 \<and> list_all js_digit r" using 3 unfolding lang_upto_class by simp
  moreover have "p = s @ d # r" using 1(1) 2(1) d(1) by simp
  ultimately show "\<exists>s d r. p = s @ d # r \<and> (s = [] \<or> s = ''+'') \<and> digit19 d \<and> length r \<le> 15 \<and> list_all js_digit r"
    using d(2) by blast
next
  assume "\<exists>s d r. p = s @ d # r \<and> (s = [] \<or> s = ''+'') \<and> digit19 d \<and> length r \<le> 15 \<and> list_all js_digit r"
  then obtain s d r where p: "p = s @ [d] @ r" and s: "s = [] \<or> s = ''+''" and d: "digit19 d"
    and r: "length r \<le> 15 \<and> list_all js_digit r" by auto
  have "s \<in> lang (ropt (RClass (\<lambda>c. c = CHR ''+'')))" using s unfolding lang_opt_class by auto
  moreover have "[d] \<in> lang (RClass digit19)" using d by simp
  moreover have "r \<in> lang (rupto 15 (RClass js_digit))" using r unfolding lang_upto_class by simp
  ultimately show "p \<in> lang phoneRegex"
    unfolding phoneRegex_def p by (intro seqI)
qed

lemma in_char_range:
  assumes "a \<le> (of_char c :: nat)" "of_char c \<le> b"
  shows "c \<in> set (map char_of [a..<Suc b])"
proof -
  have "(of_char c :: nat) \<in> set [a..<Suc b]" using assms by auto
  then have "char_of (of_char c :: nat) \<in> char_of ` set [a..<Suc b]" by (rule imageI)
  then show ?thesis by simp
qed

lemma digit19_iff: "digit19 c \<longleftrightarrow> c \<in> set ''123456789''"
proof
  assume "digit19 c"
  then have "c \<in> set (map char_of [49..<Suc 57])"
    unfolding digit19_def by (intro in_char_range) simp_all
  also have "map char_of [49..<Suc 57] = ''123456789''" by code_simp
  finally show "c \<in> set ''123456789''" .
next
  assume "c \<in> set ''123456789''"
  then show "digit19 c" by (auto simp: digit19_def)
qed

lemma js_digit_iff: "js_digit c \<longleftrightarrow> c \<in> set ''0123456789''"
proof
  assume "js_digit c"
  then have "c \<in> set (map char_of [48..<Suc 57])"
    unfolding js_digit_def by (intro in_char_range) simp_all
  also have "map char_of [48..<Suc 57] = ''0123456789''" by code_simp
  finally show "c \<in> set ''0123456789''" .
next
  assume "c \<in> set ''0123456789''"
  then show "js_digit c" by (auto simp: js_digit_def)
qed

lemma plain_chars: "list_all not_space_at w \<longleftrightarrow> \<not> list_ex js_space w \<and> CHR ''@'' \<notin> set w"
  by (induction w) (auto simp: not_space_at_def)

text \<open>
  C5: \<open>validateEmail\<close> accepts exactly the strings \<open>local @ domain\<close> with a single \<open>@\<close>,
  a non-empty local part without white space, and a domain \<open>x.y\<close> whose parts \<open>x\<close> and
  \<open>y\<close> around the dot are non-empty and without white space. It accepts
  \<open>user@example.com\<close> and rejects \<open>not-an-email\<close> and \<open>a@b\<close>.
\<close>

theorem validateEmail_accepts:
  "(validateEmail e \<longleftrightarrow>
      (\<exists>local domain x y. e = local @ ''@'' @ domain \<and> domain = x @ ''.'' @ y
          \<and> CHR ''@'' \<notin> set local \<and> CHR ''@'' \<notin> set domain
          \<and> local \<noteq> [] \<and> \<not> list_ex js_space local
          \<and> x \<noteq> [] \<and> \<not> list_ex js_space x \<and> y \<noteq> [] \<and> \<not> list_ex js_space y))
   \<and> validateEmail ''user@example.com''
   \<and> \<not> validateEmail ''not-an-email''
   \<and> \<not> validateEmail ''a@b''"
proof (intro conjI)
  have "validateEmail e \<longleftrightarrow>
     (\<exists>l x y. e = l @ ''@'' @ x @ ''.'' @ y \<and> (l \<noteq> [] \<and> list_all not_space_at l)
        \<and> (x \<noteq> [] \<and> list_all not_space_at x) \<and> (y \<noteq> [] \<and> list_all not_space_at y))"
    unfolding validateEmail_def regex_test_def matches_lang lang_email lang_plus_class by simp
  also have "\<dots> \<longleftrightarrow> (\<exists>local domain x y. e = local @ ''@'' @ domain \<and> domain = x @ ''.'' @ y
          \<and> CHR ''@'' \<notin> set local \<and> CHR ''@'' \<notin> set domain
          \<and> local \<noteq> [] \<and> \<not> list_ex js_space local
          \<and> x \<noteq> [] \<and> \<not> list_ex js_space x \<and> y \<noteq> [] \<and> \<not> list_ex js_space y)"
    unfolding plain_chars
  proof (intro iffI; elim exE conjE)
    fix l x y
    assume "e = l @ ''@'' @ x @ ''.'' @ y" "l \<noteq> []" "\<not> list_ex js_space l" "CHR ''@'' \<notin> set l"
      "x \<noteq> []" "\<not> list_ex js_space x" "CHR ''@'' \<notin> set x"
      "y \<noteq> []" "\<not> list_ex js_space y" "CHR ''@'' \<notin> set y"
    then show "\<exists>local domain x y. e = local @ ''@'' @ domain \<and> domain = x @ ''.'' @ y
          \<and> CHR ''@'' \<notin> set local \<and> CHR ''@'' \<notin> set domain
          \<and> local \<noteq> [] \<and> \<not> list_ex js_space local
          \<and> x \<noteq> [] \<and> \<not> list_ex js_space x \<and> y \<noteq> [] \<and> \<not> list_ex js_space y"
      by (intro exI [of _ l] exI [of _ "x @ ''.'' @ y"] exI [of _ x] exI [of _ y]) simp
  next
    fix l d x y
    assume "e = l @ ''@'' @ d" "d = x @ ''.'' @ y" "l \<noteq> []" "\<not> list_ex js_space l"
      "CHR ''@'' \<notin> set l" "CHR ''@'' \<notin> set d"
      "x \<noteq> []" "\<not> list_ex js_space x" "y \<noteq> []" "\<not> list_ex js_space y"
    then show "\<exists>l x y. e = l @ ''@'' @ x @ ''.'' @ y
        \<and> (l \<noteq> [] \<and> \<not> list_ex js_space l \<and> CHR ''@'' \<notin> set l)
        \<and> (x \<noteq> [] \<and> \<not> list_ex js_space x \<and> CHR ''@'' \<notin> set x)
        \<and> (y \<noteq> [] \<and> \<not> list_ex js_space y \<and> CHR ''@'' \<notin> set y)"
      by (intro exI [of _ l] exI [of _ x] exI [of _ y]) simp
  qed
  finally show "validateEmail e \<longleftrightarrow> (\<exists>local domain x y. e = local @ ''@'' @ domain \<and> domain = x @ ''.'' @ y
          \<and> CHR ''@'' \<notin> set local \<and> CHR ''@'' \<notin> set domain
          \<and> local \<noteq> [] \<and> \<not> list_ex js_space local
          \<and> x \<noteq> [] \<and> \<not> list_ex js_space x \<and> y \<noteq> [] \<and> \<not> list_ex js_space y)" .
  show "validateEmail ''user@example.com''"
    by (simp add: validateEmail_def regex_test_def emailRegex_def rplus_def not_space_at_def js_space_def)
  show "\<not> validateEmail ''not-an-email''"
    by (simp add: validateEmail_def regex_test_def emailRegex_def rplus_def not_space_at_def js_space_def)
  show "\<not> validateEmail ''a@b''"
    by (simp add: validateEmail_def regex_test_def emailRegex_def rplus_def not_space_at_def js_space_def)
qed

text \<open>
  C6: \<open>validatePhone\<close> deletes every white-space character, dash and parenthesis of its
  input and accepts exactly when what is left is an optional \<open>+\<close>, a digit from 1 to 9
  and then at most 15 further digits. It accepts \<open>(855) 886-8324\<close> and rejects \<open>abc\<close>.
\<close>

theorem validatePhone_accepts:
  "(validatePhone p \<longleftrightarrow>
      (\<exists>sign d rest.
          filter (\<lambda>c. \<not> js_space c \<and> c \<notin> {CHR ''-'', CHR ''('', CHR '')''}) p = sign @ d # rest
          \<and> (sign = [] \<or> sign = ''+'')
          \<and> d \<in> set ''123456789''
          \<and> length rest \<le> 15 \<and> set rest \<subseteq> set ''0123456789''))
   \<and> validatePhone ''(855) 886-8324''
   \<and> \<not> validatePhone ''abc''"
proof (intro conjI)
  have f: "replace_class_all phone_separator p
      = filter (\<lambda>c. \<not> js_space c \<and> c \<notin> {CHR ''-'', CHR ''('', CHR '')''}) p"
    unfolding replace_class_all_def phone_separator_def by (rule filter_cong) auto
  have d: "list_all js_digit r \<longleftrightarrow> set r \<subseteq> set ''0123456789''" for r
    unfolding list_all_iff js_digit_iff by blast
  show "validatePhone p \<longleftrightarrow>
      (\<exists>sign d rest.
          filter (\<lambda>c. \<not> js_space c \<and> c \<notin> {CHR ''-'', CHR ''('', CHR '')''}) p = sign @ d # rest
          \<and> (sign = [] \<or> sign = ''+'')
          \<and> d \<in> set ''123456789''
          \<and> length rest \<le> 15 \<and> set rest \<subseteq> set ''0123456789'')"
    unfolding validatePhone_def Let_def regex_test_def matches_lang lang_phone f d digit19_iff ..
  show "validatePhone ''(855) 886-8324''"
    by (simp add: validatePhone_def regex_test_def phoneRegex_def ropt_def replace_class_all_def
        phone_separator_def js_space_def digit19_def js_digit_def eval_nat_numeral)
  show "\<not> validatePhone ''abc''"
    by (simp add: validatePhone_def regex_test_def phoneRegex_def ropt_def replace_class_all_def
        phone_separator_def js_space_def digit19_def js_digit_def eval_nat_numeral)
qed

text \<open>
  C2: with the default cap, \<open>validateMessageLength\<close> returns \<open>true\<close> for a non-empty
  message of at most 2000 characters and \<open>false\<close> for a longer one; 2000 characters pass
  and 2001 fail. For the empty message the guard \<open>message &&\<close> returns the message
  itself, the empty string, which is falsy.
\<close>

theorem validateMessageLength_default:
  "(m \<noteq> [] \<longrightarrow> validateMessageLength m None = JBool (length m \<le> 2000))
   \<and> validateMessageLength (replicate 2000 c) None = JBool True
   \<and> validateMessageLength (replicate 2001 c) None = JBool False
   \<and> validateMessageLength [] None = JStr []"
  by (auto simp: validateMessageLength_def js_and_def)

theorem validateMessageLength_default_witness:
  "validateMessageLength ''hello'' None = JBool True"
  using validateMessageLength_default [of "''hello''"] by simp

theorem validateMessageLength_empty_counterexample:
  "length ([] :: string) \<le> 2000
   \<and> validateMessageLength [] None \<noteq> JBool True
   \<and> \<not> truthy (validateMessageLength [] None)"
  by (simp add: validateMessageLength_def js_and_def)

section \<open>Brand registry: lookups and \<open>setBrand\<close>\<close>

lemma available_brands: "getAvailableBrands = [''greenheck'', ''neutral'']"
  by (simp add: getAvailableBrands_def BRAND_CONFIGS_def)

lemma brand_lookup_registered:
  "brand_lookup ''greenheck'' = Config greenheck" "brand_lookup ''neutral'' = Config neutral"
  by (simp_all add: brand_lookup_def BRAND_CONFIGS_def)

lemma brand_lookup_constructor: "brand_lookup ''constructor'' = Inherited ''constructor''"
  by (simp add: brand_lookup_def BRAND_CONFIGS_def object_prototype_keys_def)

lemma currentBrand_setBrand:
  "currentBrand (snd (setBrand b pg)) = (if brand_truthy (brand_lookup b) then b else currentBrand pg)"
  by (simp add: setBrand_def Let_def split: prod.split)

text \<open>
  The writes of the applier leave the answers of \<open>getElementById\<close> and of
  \<open>element.querySelectorAll\<close> as they are, so the applier returns normally on a page
  whose OK and Send buttons, when present, contain a \<open>span\<close>.
\<close>

lemma index_update_element [simp]:
  "byId (update_element r f d) = byId d"
  "selectWithin (update_element r f d) = selectWithin d"
  by (simp_all add: update_element_def)

lemma index_writes [simp]:
  "byId (setTextContent r v d) = byId d" "selectWithin (setTextContent r v d) = selectWithin d"
  "byId (setAttribute r k v d) = byId d" "selectWithin (setAttribute r k v d) = selectWithin d"
  "byId (appendChild p c d) = byId d" "selectWithin (appendChild p c d) = selectWithin d"
  by (simp_all add: setTextContent_def setAttribute_def appendChild_def)

lemma index_createElement [simp]:
  "byId (snd (createElement d)) = byId d" "selectWithin (snd (createElement d)) = selectWithin d"
  by (simp_all add: createElement_def)

lemma index_whenId [simp]:
  "(\<And>r x. byId (f r x) = byId x) \<Longrightarrow> byId (whenId i f d) = byId d"
  "(\<And>r x. selectWithin (f r x) = selectWithin x) \<Longrightarrow>
     selectWithin (whenId i f d) = selectWithin d"
  by (simp_all add: whenId_def split: option.split)

lemma index_whenSelector [simp]:
  "(\<And>r x. byId (f r x) = byId x) \<Longrightarrow> byId (whenSelector q f d) = byId d"
  "(\<And>r x. selectWithin (f r x) = selectWithin x) \<Longrightarrow>
     selectWithin (whenSelector q f d) = selectWithin d"
  by (simp_all add: whenSelector_def split: option.split)

lemma index_addOption [simp]:
  "byId (addOption s opt d) = byId d" "selectWithin (addOption s opt d) = selectWithin d"
  by (simp_all add: addOption_def Let_def case_prod_beta)

lemma index_fold_addOption:
  "byId (fold (addOption s) opts d) = byId d \<and> selectWithin (fold (addOption s) opts d) = selectWithin d"
  by (induction opts arbitrary: d) simp_all

lemma index_updateReasonOptions [simp]:
  "byId (updateReasonOptions opts d) = byId d"
  "selectWithin (updateReasonOptions opts d) = selectWithin d"
  by (simp_all add: updateReasonOptions_def index_fold_addOption)

lemma index_updateContactFormLabels [simp]:
  "byId (updateContactFormLabels ls d) = byId d"
  "selectWithin (updateContactFormLabels ls d) = selectWithin d"
  by (simp_all add: updateContactFormLabels_def Let_def)

lemma index_setButtonSpan:
  "byId (snd (setButtonSpan i v d)) = byId d"
  "selectWithin (snd (setButtonSpan i v d)) = selectWithin d"
  by (simp_all add: setButtonSpan_def split: option.split list.split)

lemma setButtonSpan_returns:
  "(\<forall>b. byId d i = Some b \<longrightarrow> selectWithin d b ''span'' \<noteq> []) \<Longrightarrow> fst (setButtonSpan i v d) = None"
  by (auto simp: setButtonSpan_def split: option.split list.split)

lemma and_then_returns:
  "fst r = None \<Longrightarrow> fst (f (snd r)) = None \<Longrightarrow> fst (and_then r f) = None"
  by (cases r) (simp add: and_then_def)

lemma updateLabels_returns:
  assumes "\<forall>b. byId d ''ok-button'' = Some b \<longrightarrow> selectWithin d b ''span'' \<noteq> []"
    and "\<forall>b. byId d ''send-button'' = Some b \<longrightarrow> selectWithin d b ''span'' \<noteq> []"
  shows "fst (updateLabels ls d) = None"
  unfolding updateLabels_def Let_def
  by (intro and_then_returns setButtonSpan_returns) (simp_all add: assms index_setButtonSpan)

lemma applyBrandConfiguration_returns:
  assumes "getCurrentBrandConfig cb = Config c"
    and "\<forall>b. byId d ''ok-button'' = Some b \<longrightarrow> selectWithin d b ''span'' \<noteq> []"
    and "\<forall>b. byId d ''send-button'' = Some b \<longrightarrow> selectWithin d b ''span'' \<noteq> []"
  shows "fst (applyBrandConfiguration cb d) = None"
proof -
  have "fst (and_then (updateLabels ls x) (\<lambda>y. (None, g y))) = fst (updateLabels ls x)" for ls x g
    by (cases "updateLabels ls x") (simp add: and_then_def split: option.split)
  then show ?thesis
    unfolding applyBrandConfiguration_def Let_def assms(1) brandval.case
    by (simp add: updateLabels_returns assms(2,3))
qed

lemma setBrand_returns:
  assumes "b \<in> set getAvailableBrands"
    and "\<forall>r. byId (document pg) ''ok-button'' = Some r \<longrightarrow> selectWithin (document pg) r ''span'' \<noteq> []"
    and "\<forall>r. byId (document pg) ''send-button'' = Some r \<longrightarrow> selectWithin (document pg) r ''span'' \<noteq> []"
  shows "fst (setBrand b pg) = None"
proof -
  from assms(1) obtain c where c: "brand_lookup b = Config c"
    by (auto simp: available_brands brand_lookup_registered)
  then have "getCurrentBrandConfig b = Config c"
    by (simp add: getCurrentBrandConfig_def)
  then have "fst (applyBrandConfiguration b (document pg)) = None"
    using assms(2,3) by (rule applyBrandConfiguration_returns)
  then show ?thesis
    by (simp add: setBrand_def c Let_def case_prod_beta)
qed

lemma initializeConfig_constructor:
  "initializeConfig (Some ''constructor'') pg = setBrand ''constructor'' pg"
  by (simp add: initializeConfig_def brand_lookup_constructor)

text \<open>
  C3: for each registered brand id (\<open>greenheck\<close> and \<open>neutral\<close>, the keys that
  \<open>getAvailableBrands\<close> lists), the state that \<open>setBrand(id)\<close> leaves is one in which
  \<open>getCurrentBrandConfig()\<close> returns the record stored under that id; and
  \<open>setBrand(id)\<close> returns normally when the OK and Send buttons, if the page has
  them, contain a \<open>span\<close>.
\<close>

theorem setBrand_then_getCurrentBrandConfig:
  "set getAvailableBrands = {''greenheck'', ''neutral''}
   \<and> getCurrentBrandConfig (currentBrand (snd (setBrand ''greenheck'' pg))) = Config greenheck
   \<and> getCurrentBrandConfig (currentBrand (snd (setBrand ''neutral'' pg))) = Config neutral
   \<and> (b \<in> set getAvailableBrands \<longrightarrow>
        (\<exists>c. map_of BRAND_CONFIGS b = Some c
           \<and> getCurrentBrandConfig (currentBrand (snd (setBrand b pg))) = Config c))
   \<and> (b \<in> set getAvailableBrands
        \<and> (\<forall>r. byId (document pg) ''ok-button'' = Some r
               \<longrightarrow> selectWithin (document pg) r ''span'' \<noteq> [])
        \<and> (\<forall>r. byId (document pg) ''send-button'' = Some r
               \<longrightarrow> selectWithin (document pg) r ''span'' \<noteq> [])
      \<longrightarrow> fst (setBrand b pg) = None)"
proof (intro conjI impI; (elim conjE)?)
  assume "b \<in> set getAvailableBrands"
    and "\<forall>r. byId (document pg) ''ok-button'' = Some r
               \<longrightarrow> selectWithin (document pg) r ''span'' \<noteq> []"
    and "\<forall>r. byId (document pg) ''send-button'' = Some r
               \<longrightarrow> selectWithin (document pg) r ''span'' \<noteq> []"
  then show "fst (setBrand b pg) = None"
    by (rule setBrand_returns)
next
  show "set getAvailableBrands = {''greenheck'', ''neutral''}"
    by (simp add: available_brands)
  show g: "getCurrentBrandConfig (currentBrand (snd (setBrand ''greenheck'' pg))) = Config greenheck"
    by (simp add: currentBrand_setBrand brand_lookup_registered getCurrentBrandConfig_def)
  show n: "getCurrentBrandConfig (currentBrand (snd (setBrand ''neutral'' pg))) = Config neutral"
    by (simp add: currentBrand_setBrand brand_lookup_registered getCurrentBrandConfig_def)
  assume "b \<in> set getAvailableBrands"
  then consider "b = ''greenheck''" | "b = ''neutral''"
    by (auto simp: available_brands)
  then show "\<exists>c. map_of BRAND_CONFIGS b = Some c
           \<and> getCurrentBrandConfig (currentBrand (snd (setBrand b pg))) = Config c"
  proof cases
    case 1
    then show ?thesis using g by (simp add: BRAND_CONFIGS_def)
  next
    case 2
    then show ?thesis using n by (simp add: BRAND_CONFIGS_def)
  qed
qed

theorem setBrand_then_getCurrentBrandConfig_witness:
  "''neutral'' \<in> set getAvailableBrands
   \<and> byId (document blank_page) ''ok-button'' = None
   \<and> byId (document blank_page) ''send-button'' = None
   \<and> (\<exists>c. map_of BRAND_CONFIGS ''neutral'' = Some c
     \<and> getCurrentBrandConfig (currentBrand (snd (setBrand ''neutral'' blank_page))) = Config c)
   \<and> fst (setBrand ''neutral'' blank_page) = None"
  using setBrand_then_getCurrentBrandConfig [of blank_page "''neutral''"]
  by (simp add: available_brands BRAND_CONFIGS_def blank_page_def blank_document_def)

text \<open>
  An id that is neither registered nor a member of \<open>Object.prototype\<close>: \<open>setBrand\<close>
  returns normally, appends one warning to the console and changes nothing else.
\<close>

lemma setBrand_unknown:
  assumes "brand_lookup b = Undefined"
  shows "setBrand b pg =
           (None, pg\<lparr>console := console pg @
              [(''warn'', ''Brand configuration '' @ [CHR 0x27] @ b @ [CHR 0x27]
                  @ '' not found. Using default.'')]\<rparr>)"
    and "getCurrentBrandConfig (currentBrand (snd (setBrand b pg))) = getCurrentBrandConfig (currentBrand pg)"
  using assms by (simp_all add: setBrand_def)

lemma brand_lookup_nonexistent: "brand_lookup ''nonexistent'' = Undefined"
  by (simp add: brand_lookup_def BRAND_CONFIGS_def object_prototype_keys_def)

lemma applyBrandConfiguration_inherited:
  "getCurrentBrandConfig cb = Inherited k \<Longrightarrow>
     \<exists>m. fst (applyBrandConfiguration cb d) = Some (TypeError m)"
  by (simp add: applyBrandConfiguration_def Let_def)

text \<open>
  C4, at the id \<open>constructor\<close>: it is not a registered brand, yet \<open>BRAND_CONFIGS[id]\<close>
  finds \<open>Object.prototype.constructor\<close>, which is truthy. \<open>setBrand\<close> makes it the
  current brand, \<open>getCurrentBrandConfig()\<close> no longer returns what it returned before,
  \<open>applyBrandConfiguration\<close> raises a \<open>TypeError\<close>, and no warning is written.
\<close>

theorem setBrand_constructor:
  "''constructor'' \<notin> set getAvailableBrands
   \<and> getCurrentBrandConfig (currentBrand (pg\<lparr>currentBrand := ''greenheck''\<rparr>)) = Config greenheck
   \<and> currentBrand (snd (setBrand ''constructor'' (pg\<lparr>currentBrand := ''greenheck''\<rparr>))) = ''constructor''
   \<and> getCurrentBrandConfig (currentBrand (snd (setBrand ''constructor'' (pg\<lparr>currentBrand := ''greenheck''\<rparr>))))
       = Inherited ''constructor''
   \<and> (\<exists>m. fst (setBrand ''constructor'' (pg\<lparr>currentBrand := ''greenheck''\<rparr>)) = Some (TypeError m))
   \<and> console (snd (setBrand ''constructor'' (pg\<lparr>currentBrand := ''greenheck''\<rparr>))) = console pg"
proof -
  have i: "getCurrentBrandConfig ''constructor'' = Inherited ''constructor''"
    by (simp add: getCurrentBrandConfig_def brand_lookup_constructor)
  obtain m where m: "fst (applyBrandConfiguration ''constructor'' (document pg)) = Some (TypeError m)"
    using applyBrandConfiguration_inherited [OF i] by blast
  have "fst (setBrand ''constructor'' (pg\<lparr>currentBrand := ''greenheck''\<rparr>)) = Some (TypeError m)"
    using m by (cases "applyBrandConfiguration ''constructor'' (document pg)")
      (simp add: setBrand_def brand_lookup_constructor Let_def)
  moreover have "console (snd (setBrand ''constructor'' (pg\<lparr>currentBrand := ''greenheck''\<rparr>))) = console pg"
    by (simp add: setBrand_def brand_lookup_constructor Let_def split: prod.split)
  ultimately show ?thesis
    by (simp add: available_brands currentBrand_setBrand brand_lookup_constructor i
        getCurrentBrandConfig_def brand_lookup_registered)
qed

lemma getCurrentBrandConfig_fallback:
  "brand_lookup cb = Undefined \<Longrightarrow> getCurrentBrandConfig cb = Config greenheck"
  by (simp add: getCurrentBrandConfig_def brand_lookup_registered)

text \<open>
  C10: \<open>getCurrentBrandConfig\<close> never returns \<open>undefined\<close>. But with \<open>currentBrand\<close>
  equal to \<open>constructor\<close>, which is not a key of the registry, it returns the inherited
  \<open>Object.prototype.constructor\<close> and not the greenheck record.
\<close>

theorem getCurrentBrandConfig_constructor:
  "getCurrentBrandConfig cb \<noteq> Undefined
   \<and> ''constructor'' \<notin> set getAvailableBrands
   \<and> getCurrentBrandConfig ''constructor'' = Inherited ''constructor''
   \<and> getCurrentBrandConfig ''constructor'' \<noteq> Config greenheck"
proof -
  have "getCurrentBrandConfig cb \<noteq> Undefined"
    by (cases "brand_lookup cb") (simp_all add: getCurrentBrandConfig_def brand_lookup_registered)
  then show ?thesis
    by (simp add: available_brands getCurrentBrandConfig_def brand_lookup_constructor)
qed

section \<open>Modal manager\<close>

text \<open>
  C8: when the document has no element with the given id, \<open>openModal\<close> and \<open>closeModal\<close>
  return at once: the \<open>AppState\<close> and the whole document are what they were. Neither
  function has a statement that can raise on this path, and the model has no error
  result for them.
\<close>

theorem modal_missing_target:
  "byId d modalId = None \<Longrightarrow>
     openModal modalId (st, d) = (st, d) \<and> closeModal modalId (st, d) = (st, d)"
  by (simp add: openModal_def closeModal_def)

theorem modal_missing_target_witness:
  "byId blank_document ''contact-modal'' = None
   \<and> openModal ''contact-modal'' (initial_AppState, blank_document) = (initial_AppState, blank_document)
   \<and> closeModal ''contact-modal'' (initial_AppState, blank_document) = (initial_AppState, blank_document)"
  using modal_missing_target [of blank_document "''contact-modal''" initial_AppState]
  by (simp add: blank_document_def)

lemma openModal_captures:
  "byId d modalId = Some modal \<Longrightarrow>
     currentFocusedElement (fst (openModal modalId (st, d))) = activeElement d"
  by (simp add: openModal_def Let_def)

lemma closeModal_clears:
  "byId d modalId = Some modal \<Longrightarrow>
     currentFocusedElement (fst (closeModal modalId (st, d))) = None"
  by (cases "currentFocusedElement st") (simp_all add: closeModal_def Let_def)

lemma closeAllModals_keeps_capture:
  "currentFocusedElement (fst (closeAllModals sd)) = currentFocusedElement (fst sd)"
  by (cases sd) (simp add: closeAllModals_def Let_def)

text \<open>
  C9, as the code has it: a successful \<open>openModal\<close> sets \<open>currentFocusedElement\<close> to the
  element that was active, \<open>closeModal\<close> on an existing modal leaves it empty, and
  \<open>closeAllModals\<close> leaves it as it was.
\<close>

theorem currentFocusedElement_open_close:
  "(byId d modalId \<noteq> None \<longrightarrow>
      currentFocusedElement (fst (openModal modalId (st, d))) = activeElement d
      \<and> currentFocusedElement (fst (closeModal modalId (st, d))) = None)
   \<and> currentFocusedElement (fst (closeAllModals (st, d))) = currentFocusedElement st"
  using openModal_captures closeModal_clears closeAllModals_keeps_capture [of "(st, d)"]
  by auto

theorem currentFocusedElement_open_close_witness:
  "byId sample_document ''contact-modal'' \<noteq> None
   \<and> currentFocusedElement (fst (openModal ''contact-modal'' (initial_AppState, sample_document))) = Some 5
   \<and> currentFocusedElement (fst (closeModal ''contact-modal'' (initial_AppState, sample_document))) = None"
  using currentFocusedElement_open_close [of sample_document "''contact-modal''" initial_AppState]
  by (simp add: sample_document_def)

text \<open>
  After \<open>openModal('contact-modal')\<close> on the sample page, \<open>closeAllModals()\<close> resets both
  flags and leaves the captured element in \<open>currentFocusedElement\<close>.
\<close>

theorem closeAllModals_capture_counterexample:
  "currentFocusedElement
     (fst (closeAllModals (openModal ''contact-modal'' (initial_AppState, sample_document)))) = Some 5
   \<and> currentFocusedElement
     (fst (closeAllModals (openModal ''contact-modal'' (initial_AppState, sample_document)))) \<noteq> None
   \<and> isContactModalOpen
     (fst (closeAllModals (openModal ''contact-modal'' (initial_AppState, sample_document)))) = False"
proof -
  have "byId sample_document ''contact-modal'' = Some 3"
    by (simp add: sample_document_def)
  then have "currentFocusedElement (fst (openModal ''contact-modal'' (initial_AppState, sample_document)))
      = activeElement sample_document"
    by (rule openModal_captures)
  moreover have "activeElement sample_document = Some 5"
    by (simp add: sample_document_def)
  moreover have "isContactModalOpen (fst (closeAllModals sd)) = False" for sd
    by (cases sd) (simp add: closeAllModals_def Let_def)
  ultimately show ?thesis
    by (simp add: closeAllModals_keeps_capture)
qed

section \<open>Form handling\<close>

lemma validationLoop_first_failure:
  "validationLoop v rs = (case first_failure rs v of None \<Rightarrow> (True, '''') | Some m \<Rightarrow> (False, m))"
  by (induction rs) (simp_all add: first_failure_def)

lemma validateField_result: "fst (validateField f v rs d) \<longleftrightarrow> first_failure rs v = None"
  by (simp add: validateField_def validationLoop_first_failure split: option.split)

lemma validateField_byId: "byId (snd (validateField f v rs d)) = byId d"
  by (simp add: validateField_def validationLoop_first_failure showError_def clearError_def
      classList_add_def classList_remove_def setTextContent_def update_element_def Let_def
      split: option.split)

lemma validateField_text:
  "textContent (store (snd (validateField f v rs d)) e) =
     (if byId d (f @ ''-error'') = Some e
      then (case first_failure rs v of None \<Rightarrow> '''' | Some m \<Rightarrow> m)
      else textContent (store d e))"
  by (simp add: validateField_def validationLoop_first_failure showError_def clearError_def
      classList_add_def classList_remove_def setTextContent_def update_element_def Let_def
      split: option.split)

lemma validateField_show:
  "''show'' \<in> set (classList (store (snd (validateField f v rs d)) e)) \<longleftrightarrow>
     (if byId d (f @ ''-error'') = Some e then first_failure rs v \<noteq> None
      else ''show'' \<in> set (classList (store d e)))"
  by (simp add: validateField_def validationLoop_first_failure showError_def clearError_def
      classList_add_def classList_remove_def setTextContent_def update_element_def Let_def
      split: option.split)

lemma required_empty: "\<not> truthy (validateRequired [])"
  by (simp add: validateRequired_def js_and_def)

lemma sample_document_ids:
  "byId sample_document i = Some r \<Longrightarrow> byId sample_document j = Some r \<Longrightarrow> i = j"
  by (auto simp: sample_document_def split: if_splits)

text \<open>
  C7: in a document where different ids name different elements,
  \<open>validateContactForm\<close> returns \<open>true\<close> exactly when no field has a failing rule, and
  after the call the error element of each of the five fields shows the message of the
  first failing rule of that field's own list for that field's own value (and is empty
  and hidden when there is none), whatever the other fields hold. With an empty reason
  and an empty message the form is rejected, and the two fields report
  \<open>Please select a reason for contact\<close> and \<open>Message is required\<close>.
\<close>

theorem validateContactForm_fields:
  assumes distinct_ids: "\<forall>i j r. byId d i = Some r \<and> byId d j = Some r \<longrightarrow> i = j"
  shows
    "(fst (validateContactForm fd d) \<longleftrightarrow>
        (\<forall>(f, v, rs) \<in> set (contact_fields fd). first_failure rs v = None))
     \<and> (\<forall>(f, v, rs) \<in> set (contact_fields fd). \<forall>e. byId d (f @ ''-error'') = Some e \<longrightarrow>
           textContent (store (snd (validateContactForm fd d)) e)
             = (case first_failure rs v of None \<Rightarrow> [] | Some m \<Rightarrow> m)
           \<and> (''show'' \<in> set (classList (store (snd (validateContactForm fd d)) e))
                \<longleftrightarrow> first_failure rs v \<noteq> None))
     \<and> (form_reason fd = [] \<and> form_message fd = [] \<longrightarrow>
           \<not> fst (validateContactForm fd d)
           \<and> first_failure reasonRules (form_reason fd) = Some ''Please select a reason for contact''
           \<and> first_failure messageRules (form_message fd) = Some ''Message is required'')"
proof (intro conjI)
  have ids: "i = j" if "byId d i = Some r" "byId d j = Some r" for i j r
    using distinct_ids that by blast
  show res: "fst (validateContactForm fd d) \<longleftrightarrow>
        (\<forall>(f, v, rs) \<in> set (contact_fields fd). first_failure rs v = None)"
    by (simp add: validateContactForm_def Let_def case_prod_beta validateField_result
        contact_fields_def)
  show "\<forall>(f, v, rs) \<in> set (contact_fields fd). \<forall>e. byId d (f @ ''-error'') = Some e \<longrightarrow>
           textContent (store (snd (validateContactForm fd d)) e)
             = (case first_failure rs v of None \<Rightarrow> [] | Some m \<Rightarrow> m)
           \<and> (''show'' \<in> set (classList (store (snd (validateContactForm fd d)) e))
                \<longleftrightarrow> first_failure rs v \<noteq> None)"
    by (auto simp: validateContactForm_def Let_def case_prod_beta validateField_text
        validateField_show validateField_byId contact_fields_def dest: ids)
  have r: "first_failure reasonRules [] = Some ''Please select a reason for contact''"
    by (simp add: first_failure_def reasonRules_def required_empty)
  have m: "first_failure messageRules [] = Some ''Message is required''"
    by (simp add: first_failure_def messageRules_def required_empty)
  show "form_reason fd = [] \<and> form_message fd = [] \<longrightarrow>
           \<not> fst (validateContactForm fd d)
           \<and> first_failure reasonRules (form_reason fd) = Some ''Please select a reason for contact''
           \<and> first_failure messageRules (form_message fd) = Some ''Message is required''"
    using r m by (auto simp: res contact_fields_def)
qed

theorem validateContactForm_fields_witness:
  "\<not> fst (validateContactForm
       \<lparr>form_email = ''user@example.com'', form_name = [], form_phone = [],
        form_reason = [], form_message = []\<rparr> sample_document)
   \<and> textContent (store (snd (validateContactForm
       \<lparr>form_email = ''user@example.com'', form_name = [], form_phone = [],
        form_reason = [], form_message = []\<rparr> sample_document)) 7)
      = ''Please select a reason for contact''
   \<and> textContent (store (snd (validateContactForm
       \<lparr>form_email = ''user@example.com'', form_name = [], form_phone = [],
        form_reason = [], form_message = []\<rparr> sample_document)) 9)
      = ''Message is required''"
proof -
  let ?fd = "\<lparr>form_email = ''user@example.com'', form_name = [], form_phone = [],
        form_reason = [], form_message = []\<rparr>"
  have 7: "byId sample_document (''contact-reason'' @ ''-error'') = Some 7"
    and 9: "byId sample_document (''contact-message'' @ ''-error'') = Some 9"
    by (simp_all add: sample_document_def)
  have ids: "\<forall>i j r. byId sample_document i = Some r \<and> byId sample_document j = Some r \<longrightarrow> i = j"
    using sample_document_ids by blast
  note t = validateContactForm_fields [of sample_document ?fd, OF ids]
  have a: "(''contact-reason'', form_reason ?fd, reasonRules) \<in> set (contact_fields ?fd)"
    and b: "(''contact-message'', form_message ?fd, messageRules) \<in> set (contact_fields ?fd)"
    by (simp_all add: contact_fields_def)
  note t2 = t [THEN conjunct2, THEN conjunct1]
  note t3 = t [THEN conjunct2, THEN conjunct2]
  from t3 have c: "\<not> fst (validateContactForm ?fd sample_document)"
    and r: "first_failure reasonRules [] = Some ''Please select a reason for contact''"
    and m: "first_failure messageRules [] = Some ''Message is required''"
    by simp_all
  from bspec [OF t2 a] 7 have "textContent (store (snd (validateContactForm ?fd sample_document)) 7)
      = (case first_failure reasonRules (form_reason ?fd) of None \<Rightarrow> [] | Some m \<Rightarrow> m)"
    by simp
  moreover from bspec [OF t2 b] 9 have "textContent (store (snd (validateContactForm ?fd sample_document)) 9)
      = (case first_failure messageRules (form_message ?fd) of None \<Rightarrow> [] | Some m \<Rightarrow> m)"
    by simp
  ultimately show ?thesis using c r m by simp
qed

section \<open>Color utility\<close>

lemma hex_digit_range: "hex_digit c = Some a \<Longrightarrow> 0 \<le> a \<and> a < 16"
  by (auto simp: hex_digit_def Let_def split: if_splits)

lemma hex_digit_plain:
  assumes "hex_digit c = Some a"
  shows "\<not> js_space c" "c \<noteq> CHR ''#''" "c \<noteq> CHR ''-''" "c \<noteq> CHR ''+''"
    "c \<noteq> CHR ''x''" "c \<noteq> CHR ''X''"
  using assms by (auto simp: hex_digit_def Let_def js_space_def split: if_splits)

lemma bitlen_bound: "0 \<le> n \<Longrightarrow> n < 2 ^ k \<Longrightarrow> bitlen n \<le> k"
proof (induction k arbitrary: n)
  case 0
  then have "n = 0" by simp
  then show ?case by (simp add: bitlen.simps)
next
  case (Suc k)
  show ?case
  proof (cases "n \<le> 0")
    case True
    then show ?thesis by (simp add: bitlen.simps)
  next
    case False
    have "n div 2 < 2 ^ k" "0 \<le> n div 2" using Suc.prems by auto
    then have "bitlen (n div 2) \<le> k" using Suc.IH by simp
    with False show ?thesis by (subst bitlen.simps) simp
  qed
qed

lemma round53_small: "0 \<le> n \<Longrightarrow> n < 2 ^ 53 \<Longrightarrow> round53 n = n"
  using bitlen_bound [of n 53] by (simp add: round53_def)

lemma int_and_255: "(x :: int) AND 255 = x mod 256"
proof -
  have "x AND mask 8 = take_bit 8 x" by (simp add: take_bit_eq_mask)
  then show ?thesis by (simp add: take_bit_eq_mod mask_eq_exp_minus_1)
qed

lemma to_hex_small: "n < 16 \<Longrightarrow> to_hex n = [hex_char n]"
  by (subst to_hex.simps) simp

lemma to_hex_step: "16 \<le> n \<Longrightarrow> to_hex n = to_hex (n div 16) @ [hex_char (n mod 16)]"
  by (subst to_hex.simps) simp

lemma to_hex_byte:
  assumes "1 \<le> x" "0 \<le> b" "b < 256"
  shows "to_hex (x * 256 + b) = to_hex x @ hex2 b"
proof -
  have 1: "16 \<le> x * 256 + b" using assms by simp
  have "(b + (x * 16) * 16) div 16 = x * 16 + b div 16"
    by (rule div_mult_self1) simp
  moreover have "(b + (x * 16) * 16) mod 16 = b mod 16"
    by (rule mod_mult_self1)
  ultimately have 2: "(x * 256 + b) div 16 = x * 16 + b div 16" "(x * 256 + b) mod 16 = b mod 16"
    by (simp_all add: add.commute mult.commute)
  have h: "0 \<le> b div 16" "b div 16 < 16" using assms by simp_all
  have 3: "16 \<le> x * 16 + b div 16" using assms h by simp
  have e': "x * 16 + b div 16 = b div 16 + x * 16" by simp
  have 4: "(x * 16 + b div 16) div 16 = x" "(x * 16 + b div 16) mod 16 = b div 16"
    unfolding e' using h by simp_all
  show ?thesis
    unfolding to_hex_step [OF 1] 2 to_hex_step [OF 3] 4 hex2_def by simp
qed

lemma clamp_lane_byte: "clamp_lane x = clamp_byte x"
  by (simp add: clamp_lane_def clamp_byte_def)

lemma clamp_byte_range: "0 \<le> clamp_byte x" "clamp_byte x < 256"
  by (simp_all add: clamp_byte_def)

lemma replace_hash_six:
  assumes "hex_digit r1 = Some a1" "hex_digit r2 = Some a2" "hex_digit g1 = Some a3"
    "hex_digit g2 = Some a4" "hex_digit b1 = Some a5" "hex_digit b2 = Some a6"
    and "color = [r1, r2, g1, g2, b1, b2] \<or> color = CHR ''#'' # [r1, r2, g1, g2, b1, b2]"
  shows "replace_hash color = [r1, r2, g1, g2, b1, b2]"
  using assms hex_digit_plain(2) by auto

lemma six_digits_value:
  assumes "0 \<le> a1 \<and> a1 < 16" "0 \<le> a2 \<and> a2 < 16" "0 \<le> a3 \<and> a3 < 16"
    "0 \<le> a4 \<and> a4 < 16" "0 \<le> a5 \<and> a5 < 16" "0 \<le> a6 \<and> a6 < (16 :: int)"
  shows "16 * (16 * (16 * (16 * (16 * a1 + a2) + a3) + a4) + a5) + a6
           = (16 * a1 + a2) * 2 ^ 16 + (16 * a3 + a4) * 2 ^ 8 + (16 * a5 + a6)"
    and "0 \<le> (16 * a1 + a2) * 2 ^ 16 + (16 * a3 + a4) * 2 ^ 8 + (16 * a5 + a6)"
    and "(16 * a1 + a2) * 2 ^ 16 + (16 * a3 + a4) * 2 ^ 8 + (16 * a5 + a6) < 2 ^ 24"
  using assms by simp_all

lemma parseInt16_six:
  assumes "hex_digit r1 = Some a1" "hex_digit r2 = Some a2" "hex_digit g1 = Some a3"
    "hex_digit g2 = Some a4" "hex_digit b1 = Some a5" "hex_digit b2 = Some a6"
  shows "parseInt16 [r1, r2, g1, g2, b1, b2]
           = Num ((16 * a1 + a2) * 2 ^ 16 + (16 * a3 + a4) * 2 ^ 8 + (16 * a5 + a6))"
proof -
  let ?n = "(16 * a1 + a2) * 2 ^ 16 + (16 * a3 + a4) * 2 ^ 8 + (16 * a5 + a6)"
  note rng = assms [THEN hex_digit_range]
  have run: "hex_run 0 [r1, r2, g1, g2, b1, b2] = ?n"
    using six_digits_value(1) [OF rng] by (simp add: assms)
  have "?n < 2 ^ 53"
    using six_digits_value(3) [OF rng] by simp
  then have r: "round53 ?n = ?n"
    using six_digits_value(2) [OF rng] by (intro round53_small)
  have s: "dropWhile js_space [r1, r2, g1, g2, b1, b2] = [r1, r2, g1, g2, b1, b2]"
    using hex_digit_plain(1) [OF assms(1)] by simp
  have t: "strip_sign [r1, r2, g1, g2, b1, b2] = (1, [r1, r2, g1, g2, b1, b2])"
    using hex_digit_plain(3,4) [OF assms(1)] by (simp add: strip_sign_def)
  have z: "strip_0x [r1, r2, g1, g2, b1, b2] = [r1, r2, g1, g2, b1, b2]"
    using hex_digit_plain(5,6) [OF assms(2)] by (simp add: strip_0x_def)
  show ?thesis
    unfolding parseInt16_def s t
    by (simp only: Let_def prod.case z list.case assms(1) run r option.simps if_False mult_1)
qed

lemma toInt32_small: "0 \<le> n \<Longrightarrow> n < 2 ^ 31 \<Longrightarrow> toInt32 (Num n) = n"
  by simp

lemma lanes_of:
  assumes "0 \<le> R" "R < 256" "0 \<le> G" "G < 256" "0 \<le> B" "B < (256 :: int)"
  shows "js_shr (Num (R * 2 ^ 16 + G * 2 ^ 8 + B)) 16 = R"
    and "js_band (Num (js_shr (Num (R * 2 ^ 16 + G * 2 ^ 8 + B)) 8)) (Num 0x00FF) = G"
    and "js_band (Num (R * 2 ^ 16 + G * 2 ^ 8 + B)) (Num 0x0000FF) = B"
proof -
  let ?n = "R * 2 ^ 16 + G * 2 ^ 8 + B"
  have n: "0 \<le> ?n" "?n < 2 ^ 31" using assms by simp_all
  have t: "toInt32 (Num ?n) = ?n" using n by (rule toInt32_small)
  have "(G * 256 + B + R * 65536) div 65536 = R + (G * 256 + B) div 65536"
    by (rule div_mult_self1) simp
  moreover have "(G * 256 + B) div 65536 = 0" using assms by simp
  ultimately have d16: "?n div 2 ^ 16 = R" by (simp add: add.commute)
  have "(B + (R * 256 + G) * 256) div 256 = (R * 256 + G) + B div 256"
    by (rule div_mult_self1) simp
  moreover have "(B + (R * 256 + G) * 256) mod 256 = B mod 256"
    by (rule mod_mult_self1)
  ultimately have d8: "?n div 2 ^ 8 = R * 256 + G" and m8: "?n mod 256 = B"
    using assms by (simp_all add: algebra_simps)
  have "(G + R * 256) mod 256 = G mod 256"
    by (rule mod_mult_self1)
  then have g: "(R * 256 + G) mod 256 = G" using assms by (simp add: add.commute)
  show "js_shr (Num ?n) 16 = R"
    unfolding js_shr_def t by (rule d16)
  have s8: "js_shr (Num ?n) 8 = R * 256 + G"
    unfolding js_shr_def t by (rule d8)
  have "0 \<le> R * 256 + G" "R * 256 + G < 2 ^ 31" using assms by simp_all
  then have t8: "toInt32 (Num (R * 256 + G)) = R * 256 + G" by (rule toInt32_small)
  have t255: "toInt32 (Num 255) = 255" by simp
  show "js_band (Num (js_shr (Num ?n) 8)) (Num 0x00FF) = G"
    unfolding s8 js_band_def t8 t255 int_and_255 by (rule g)
  show "js_band (Num ?n) (Num 0x0000FF) = B"
    unfolding js_band_def t t255 int_and_255 by (rule m8)
qed

lemma to_hex_lanes:
  assumes "0 \<le> r" "r < 256" "0 \<le> g" "g < 256" "0 \<le> b" "b < (256 :: int)"
  shows "toString16 (0x1000000 + r * 0x10000 + g * 0x100 + b)
           = hex_char 1 # hex2 r @ hex2 g @ hex2 b"
proof -
  have e: "0x1000000 + r * 0x10000 + g * 0x100 + b = ((1 * 256 + r) * 256 + g) * 256 + b"
    by simp
  have "to_hex (((1 * 256 + r) * 256 + g) * 256 + b) = to_hex ((1 * 256 + r) * 256 + g) @ hex2 b"
    using assms by (intro to_hex_byte) simp_all
  also have "to_hex ((1 * 256 + r) * 256 + g) = to_hex (1 * 256 + r) @ hex2 g"
    using assms by (intro to_hex_byte) simp_all
  also have "to_hex (1 * 256 + r) = to_hex 1 @ hex2 r"
    using assms by (intro to_hex_byte) simp_all
  also have "to_hex 1 = [hex_char 1]"
    by (rule to_hex_small) simp
  finally have "to_hex (((1 * 256 + r) * 256 + g) * 256 + b) = hex_char 1 # hex2 r @ hex2 g @ hex2 b"
    by simp
  moreover have "0 \<le> ((1 * 256 + r) * 256 + g) * 256 + b" using assms by simp
  ultimately show ?thesis
    unfolding e toString16_def by simp
qed

lemma darkenColor_six:
  assumes "hex_digit r1 = Some a1" "hex_digit r2 = Some a2" "hex_digit g1 = Some a3"
    "hex_digit g2 = Some a4" "hex_digit b1 = Some a5" "hex_digit b2 = Some a6"
    and "color = [r1, r2, g1, g2, b1, b2] \<or> color = CHR ''#'' # [r1, r2, g1, g2, b1, b2]"
  shows "darkenColor color percent =
           ''#'' @ darken_lane (16 * a1 + a2) (round_2_55_times percent)
             @ darken_lane (16 * a3 + a4) (round_2_55_times percent)
             @ darken_lane (16 * a5 + a6) (round_2_55_times percent)"
proof -
  note rng = assms(1-6) [THEN hex_digit_range]
  have b: "0 \<le> 16 * a1 + a2" "16 * a1 + a2 < 256" "0 \<le> 16 * a3 + a4" "16 * a3 + a4 < 256"
    "0 \<le> 16 * a5 + a6" "16 * a5 + a6 < 256"
    using rng by simp_all
  have p: "parseInt16 (replace_hash color)
      = Num ((16 * a1 + a2) * 2 ^ 16 + (16 * a3 + a4) * 2 ^ 8 + (16 * a5 + a6))"
    unfolding replace_hash_six [OF assms] by (rule parseInt16_six [OF assms(1-6)])
  show ?thesis
    unfolding darkenColor_def p Let_def lanes_of [OF b] clamp_lane_byte
    by (simp add: to_hex_lanes clamp_byte_range darken_lane_def)
qed

lemma amount_table:
  "list_all (\<lambda>p. round_2_55_times p = darken_amount p) [0..100]"
  by code_simp

lemma round_2_55_times_percent:
  assumes "0 \<le> percent" "percent \<le> 100"
  shows "round_2_55_times percent = darken_amount percent"
proof -
  have "percent \<in> set [0..100]" using assms by simp
  with amount_table show ?thesis unfolding list_all_iff by blast
qed

text \<open>
  C1, as the code has it: for a color of six hexadecimal digits (with or without the
  leading \<open>#\<close>) \<open>darkenColor\<close> parses it to the integer \<open>R * 2^16 + G * 2^8 + B\<close> below
  \<open>2^24\<close>, and returns \<open>#\<close> followed, for each of the three lanes, by the two
  zero-padded hexadecimal digits of the lane value less the amount, clamped to
  \<open>[0, 255]\<close>. The amount is \<open>Math.round(2.55 * percent)\<close> in binary64 arithmetic: for
  an integer percentage from 0 to 100 it is \<open>2.55 * percent\<close> rounded to the nearest
  integer, a half going up, except at 50 and 90, where it is 127 and 229 and not 128
  and 230. For \<open>percent = 20\<close> the amount is 51, and \<open>darkenColor("#1e40af", 20)\<close> is
  \<open>#000d7c\<close>: the lanes 30, 64 and 175 become 0 (clamped), 13 and 124.
\<close>

theorem darkenColor_lanes:
  "(hex_digit r1 = Some a1 \<and> hex_digit r2 = Some a2 \<and> hex_digit g1 = Some a3
      \<and> hex_digit g2 = Some a4 \<and> hex_digit b1 = Some a5 \<and> hex_digit b2 = Some a6
      \<and> (color = [r1, r2, g1, g2, b1, b2] \<or> color = CHR ''#'' # [r1, r2, g1, g2, b1, b2])
    \<longrightarrow>
      parseInt16 (replace_hash color)
        = Num ((16 * a1 + a2) * 2 ^ 16 + (16 * a3 + a4) * 2 ^ 8 + (16 * a5 + a6))
      \<and> 0 \<le> (16 * a1 + a2) * 2 ^ 16 + (16 * a3 + a4) * 2 ^ 8 + (16 * a5 + a6)
      \<and> (16 * a1 + a2) * 2 ^ 16 + (16 * a3 + a4) * 2 ^ 8 + (16 * a5 + a6) < 2 ^ 24
      \<and> darkenColor color percent =
           ''#'' @ darken_lane (16 * a1 + a2) (round_2_55_times percent)
             @ darken_lane (16 * a3 + a4) (round_2_55_times percent)
             @ darken_lane (16 * a5 + a6) (round_2_55_times percent)
      \<and> (0 \<le> percent \<and> percent \<le> 100 \<longrightarrow>
           darkenColor color percent =
             ''#'' @ darken_lane (16 * a1 + a2) (darken_amount percent)
               @ darken_lane (16 * a3 + a4) (darken_amount percent)
               @ darken_lane (16 * a5 + a6) (darken_amount percent)))
   \<and> (0 \<le> percent \<and> percent \<le> 100 \<longrightarrow>
         round_2_55_times percent
           = (if percent = 50 \<or> percent = 90 then (255 * percent + 50) div 100 - 1
              else (255 * percent + 50) div 100))
   \<and> darken_amount 20 = 51 \<and> darken_amount 50 = 127 \<and> darken_amount 90 = 229
   \<and> round_2_55_times 20 = 51
   \<and> darken_lane 0x1e 51 = ''00'' \<and> darken_lane 0x40 51 = ''0d'' \<and> darken_lane 0xaf 51 = ''7c''
   \<and> darkenColor ''#1e40af'' 20 = ''#000d7c''"
proof (intro conjI impI; (elim conjE)?)
  assume h: "hex_digit r1 = Some a1" "hex_digit r2 = Some a2" "hex_digit g1 = Some a3"
    "hex_digit g2 = Some a4" "hex_digit b1 = Some a5" "hex_digit b2 = Some a6"
    and c: "color = [r1, r2, g1, g2, b1, b2] \<or> color = CHR ''#'' # [r1, r2, g1, g2, b1, b2]"
  note rng = h [THEN hex_digit_range]
  show "parseInt16 (replace_hash color)
        = Num ((16 * a1 + a2) * 2 ^ 16 + (16 * a3 + a4) * 2 ^ 8 + (16 * a5 + a6))"
    unfolding replace_hash_six [OF h c] by (rule parseInt16_six [OF h])
  show "0 \<le> (16 * a1 + a2) * 2 ^ 16 + (16 * a3 + a4) * 2 ^ 8 + (16 * a5 + a6)"
    by (rule six_digits_value(2) [OF rng])
  show "(16 * a1 + a2) * 2 ^ 16 + (16 * a3 + a4) * 2 ^ 8 + (16 * a5 + a6) < 2 ^ 24"
    by (rule six_digits_value(3) [OF rng])
  show "darkenColor color percent =
           ''#'' @ darken_lane (16 * a1 + a2) (round_2_55_times percent)
             @ darken_lane (16 * a3 + a4) (round_2_55_times percent)
             @ darken_lane (16 * a5 + a6) (round_2_55_times percent)"
    by (rule darkenColor_six [OF h c])
  assume "0 \<le> percent" "percent \<le> 100"
  then have "round_2_55_times percent = darken_amount percent"
    by (rule round_2_55_times_percent)
  then show "darkenColor color percent =
             ''#'' @ darken_lane (16 * a1 + a2) (darken_amount percent)
               @ darken_lane (16 * a3 + a4) (darken_amount percent)
               @ darken_lane (16 * a5 + a6) (darken_amount percent)"
    using darkenColor_six [OF h c, of percent] by simp
next
  assume "0 \<le> percent" "percent \<le> 100"
  then have "round_2_55_times percent = darken_amount percent"
    by (rule round_2_55_times_percent)
  then show "round_2_55_times percent
           = (if percent = 50 \<or> percent = 90 then (255 * percent + 50) div 100 - 1
              else (255 * percent + 50) div 100)"
    by (simp add: darken_amount_def exact_amount_def)
next
  show "darken_amount 20 = 51" by code_simp
  show "darken_amount 50 = 127" by code_simp
  show "darken_amount 90 = 229" by code_simp
  show "round_2_55_times 20 = 51" by code_simp
  show "darken_lane 0x1e 51 = ''00''" by code_simp
  show "darken_lane 0x40 51 = ''0d''" by code_simp
  show "darken_lane 0xaf 51 = ''7c''" by code_simp
  show "darkenColor ''#1e40af'' 20 = ''#000d7c''" by code_simp
qed

theorem darkenColor_lanes_witness:
  "hex_digit CHR ''4'' = Some 4 \<and> hex_digit CHR ''b'' = Some 11 \<and> hex_digit CHR ''5'' = Some 5
   \<and> hex_digit CHR ''6'' = Some 6 \<and> hex_digit CHR ''3'' = Some 3
   \<and> (0 :: int) \<le> 20 \<and> (20 :: int) \<le> 100
   \<and> parseInt16 (replace_hash ''#4b5563'') = Num 0x4b5563
   \<and> round_2_55_times 20 = (255 * 20 + 50) div 100
   \<and> darkenColor ''#4b5563'' 20 = ''#182230''"
proof -
  have d: "hex_digit CHR ''4'' = Some 4" "hex_digit CHR ''b'' = Some 11"
    "hex_digit CHR ''5'' = Some 5" "hex_digit CHR ''6'' = Some 6" "hex_digit CHR ''3'' = Some 3"
    by (simp_all add: hex_digit_def)
  have l: "darken_lane (16 * 4 + 11) 51 = ''18''" "darken_lane (16 * 5 + 5) 51 = ''22''"
    "darken_lane (16 * 6 + 3) 51 = ''30''"
    by code_simp+
  show ?thesis
    using darkenColor_lanes [of "CHR ''4''" 4 "CHR ''b''" 11 "CHR ''5''" 5 "CHR ''5''" 5
        "CHR ''6''" 6 "CHR ''3''" 3 "''#4b5563''" 20] d l
    by simp
qed

text \<open>
  At \<open>percent = 50\<close> the amount is not \<open>2.55 * 50\<close> rounded: the exact product 127.5
  rounds to 128, but the binary64 product is \<open>127.49999999999999\<close> and \<open>Math.round\<close>
  gives 127. So \<open>darkenColor("#808080", 50)\<close> is \<open>#010101\<close>, where subtracting
  \<open>round(2.55 * 50)\<close> from each lane would give \<open>#000000\<close>.
\<close>

theorem darkenColor_amount_counterexample:
  "exact_amount 50 = 128
   \<and> round_2_55_times 50 = 127
   \<and> darkenColor ''#808080'' 50 = ''#010101''
   \<and> ''#'' @ darken_lane 0x80 (exact_amount 50) @ darken_lane 0x80 (exact_amount 50)
        @ darken_lane 0x80 (exact_amount 50) = ''#000000''
   \<and> darkenColor ''#808080'' 50
        \<noteq> ''#'' @ darken_lane 0x80 (exact_amount 50) @ darken_lane 0x80 (exact_amount 50)
            @ darken_lane 0x80 (exact_amount 50)"
proof -
  have 1: "exact_amount 50 = 128" by code_simp
  have 2: "round_2_55_times 50 = 127" by code_simp
  have 3: "darkenColor ''#808080'' 50 = ''#010101''" by code_simp
  have 4: "''#'' @ darken_lane 0x80 (exact_amount 50) @ darken_lane 0x80 (exact_amount 50)
        @ darken_lane 0x80 (exact_amount 50) = ''#000000''" by code_simp
  show ?thesis unfolding 3 4 using 1 2 by simp
qed

text \<open>
  Other values of the amount: \<open>2.55 * 10\<close> is exactly 25.5 in binary64 and rounds to 26,
  as the exact product does; at 90 the binary64 product is below 229.5.
\<close>

lemma round_2_55_times_samples:
  "round_2_55_times 50 = 127 \<and> round_2_55_times 90 = 229 \<and> round_2_55_times 10 = 26
   \<and> round_2_55_times 100 = 255 \<and> round_2_55_times 0 = 0"
  by code_simp

end
